theory Spec2Isabelle
  imports Main
begin

section \<open>Python strings\<close>

text \<open>
  A Python \<open>str\<close> is modelled as a \<open>string\<close> whose characters are the code points
  below 256. \<open>None\<close> is the \<open>None\<close> of \<open>string option\<close>.
\<close>

definition py_isspace :: "char \<Rightarrow> bool" where
  \<comment> \<open>\<open>str.isspace\<close> on one character: TAB..CR, FS..US, space, NEL, NBSP.\<close>
  "py_isspace c =
     (let n = (of_char c :: nat)
      in (9 \<le> n \<and> n \<le> 13) \<or> (28 \<le> n \<and> n \<le> 32) \<or> n = 133 \<or> n = 160)"

definition py_strip :: "string \<Rightarrow> string" where
  \<comment> \<open>\<open>s.strip()\<close>\<close>
  "py_strip s = rev (dropWhile py_isspace (rev (dropWhile py_isspace s)))"

definition startswith :: "string \<Rightarrow> string \<Rightarrow> bool" where
  \<comment> \<open>\<open>s.startswith(p)\<close>\<close>
  "startswith s p = (take (length p) s = p)"


fun split_on :: "char \<Rightarrow> string \<Rightarrow> string list" where
  \<comment> \<open>\<open>s.split(sep)\<close> for a one-character separator; never the empty list\<close>
  "split_on sep [] = [[]]"
| "split_on sep (c # cs) =
     (if c = sep then [] # split_on sep cs
      else (case split_on sep cs of
              [] \<Rightarrow> [[c]]
            | w # ws \<Rightarrow> (c # w) # ws))"

section \<open>VersionComparator: \<open>semver_normalize\<close>\<close>

text \<open>
  \<^verbatim>\<open>
  def semver_normalize(tag):
      if not tag:
          return None
      t = tag.strip()
      if t.startswith("v") or t.startswith("V"):
          t = t[1:]
      return t
  \<close>
\<close>

definition semver_normalize :: "string option \<Rightarrow> string option" where
  "semver_normalize tag =
     (case tag of
        None \<Rightarrow> None
      | Some s \<Rightarrow>
          if s = [] then None
          else (let t = py_strip s
                in if startswith t ''v'' \<or> startswith t ''V'' then Some (drop 1 t)
                   else Some t))"

section \<open>Enable/disable by rename: \<open>toggle_selected_mod\<close>\<close>


section \<open>VersionComparator: \<open>is_version_newer\<close>\<close>

subsection \<open>Digits, integers and list comparison\<close>

definition is_ascii_digit :: "char \<Rightarrow> bool" where
  "is_ascii_digit c = (let n = (of_char c :: nat) in 48 \<le> n \<and> n \<le> 57)"

definition py_isdigit_char :: "char \<Rightarrow> bool" where
  \<comment> \<open>\<open>str.isdigit\<close> on one character: the ASCII digits and the superscripts
      two, three and one (code points 178, 179, 185)\<close>
  "py_isdigit_char c =
     (let n = (of_char c :: nat) in (48 \<le> n \<and> n \<le> 57) \<or> n = 178 \<or> n = 179 \<or> n = 185)"

definition py_isdigit :: "string \<Rightarrow> bool" where
  \<comment> \<open>\<open>x.isdigit()\<close>: at least one character, and all of them digits\<close>
  "py_isdigit x = (x \<noteq> [] \<and> list_all py_isdigit_char x)"

definition dec_val :: "string \<Rightarrow> nat" where
  \<comment> \<open>the value of a string of ASCII digits\<close>
  "dec_val ds = foldl (\<lambda>a c. 10 * a + (of_char c - 48)) 0 ds"

datatype py_exc = TypeError | AttributeError | ValueError | InvalidVersion

definition py_int :: "string \<Rightarrow> py_exc + nat" where
  \<comment> \<open>\<open>int(x)\<close> as the source calls it, on a string that passed \<open>isdigit\<close>: the
      superscript digits are rejected with ValueError. The interpreter's limit on
      the number of digits of a conversion is not modelled.\<close>
  "py_int x = (if x \<noteq> [] \<and> list_all is_ascii_digit x then Inr (dec_val x) else Inl ValueError)"

fun lex_lt :: "('a \<Rightarrow> 'a \<Rightarrow> bool) \<Rightarrow> 'a list \<Rightarrow> 'a list \<Rightarrow> bool" where
  \<comment> \<open>Python's \<open><\<close> on lists and tuples: the first differing position decides, a
      proper prefix is smaller\<close>
  "lex_lt lt [] [] = False"
| "lex_lt lt [] (y # ys) = True"
| "lex_lt lt (x # xs) [] = False"
| "lex_lt lt (x # xs) (y # ys) = (if x = y then lex_lt lt xs ys else lt x y)"

definition str_lt :: "string \<Rightarrow> string \<Rightarrow> bool" where
  \<comment> \<open>\<open><\<close> on strings: by code point\<close>
  "str_lt = lex_lt (\<lambda>a b. (of_char a :: nat) < of_char b)"

subsection \<open>The \<open>packaging.version\<close> library\<close>

text \<open>
  \<open>pkg_version.parse\<close> is not part of the repository. It is modelled after the
  library's \<open>Version\<close> class: the version pattern of PEP 440, matched without
  regard to case between optional whitespace, and the comparison key \<open>_cmpkey\<close>.
\<close>

definition ascii_lower :: "char \<Rightarrow> char" where
  "ascii_lower c =
     (let n = (of_char c :: nat) in if 65 \<le> n \<and> n \<le> 90 then char_of (n + 32) else c)"

definition is_ascii_alnum :: "char \<Rightarrow> bool" where
  "is_ascii_alnum c =
     (let n = (of_char (ascii_lower c) :: nat) in (48 \<le> n \<and> n \<le> 57) \<or> (97 \<le> n \<and> n \<le> 122))"

definition is_sep :: "char \<Rightarrow> bool" where
  "is_sep c = (c = CHR ''-'' \<or> c = CHR ''_'' \<or> c = CHR ''.'')"

definition opt_sep :: "string \<Rightarrow> string" where
  \<comment> \<open>\<open>[-_\.]?\<close>\<close>
  "opt_sep s = (case s of [] \<Rightarrow> [] | c # cs \<Rightarrow> if is_sep c then cs else s)"

definition match_lit :: "string \<Rightarrow> string \<Rightarrow> string option" where
  \<comment> \<open>a lower-case literal at the head of the input; the rest of the input\<close>
  "match_lit lit s =
     (if map ascii_lower (take (length lit) s) = lit then Some (drop (length lit) s) else None)"

fun match_first :: "string list \<Rightarrow> string \<Rightarrow> (string \<times> string) option" where
  \<comment> \<open>an alternation \<open>(a|b|...)\<close>: the first literal that matches\<close>
  "match_first [] s = None"
| "match_first (l # ls) s =
     (case match_lit l s of Some r \<Rightarrow> Some (l, r) | None \<Rightarrow> match_first ls s)"

definition opt_number :: "string \<Rightarrow> nat option \<times> string" where
  \<comment> \<open>\<open>([0-9]+)?\<close>\<close>
  "opt_number s =
     (let ds = takeWhile is_ascii_digit s
      in if ds = [] then (None, s) else (Some (dec_val ds), dropWhile is_ascii_digit s))"

definition letter_number :: "string list \<Rightarrow> string \<Rightarrow> (string \<times> nat option \<times> string) option" where
  \<comment> \<open>\<open>[-_\.]?(a|b|...)[-_\.]?([0-9]+)?\<close>\<close>
  "letter_number labels s =
     (case match_first labels (opt_sep s) of
        None \<Rightarrow> None
      | Some (l, r) \<Rightarrow> (case opt_number (opt_sep r) of (n, r') \<Rightarrow> Some (l, n, r')))"

function release_tail :: "string \<Rightarrow> nat list \<times> string" where
  \<comment> \<open>\<open>(?:\.[0-9]+)*\<close>\<close>
  "release_tail s =
     (case s of
        [] \<Rightarrow> ([], s)
      | c # cs \<Rightarrow>
          if c = CHR ''.'' \<and> takeWhile is_ascii_digit cs \<noteq> []
          then (case release_tail (dropWhile is_ascii_digit cs) of
                  (ns, r) \<Rightarrow> (dec_val (takeWhile is_ascii_digit cs) # ns, r))
          else ([], s))"
  by pat_completeness auto
termination
  by (relation "measure length") (auto simp: length_dropWhile_le less_Suc_eq_le)

declare release_tail.simps [simp del]

definition parse_release :: "string \<Rightarrow> (nat list \<times> string) option" where
  \<comment> \<open>\<open>[0-9]+(?:\.[0-9]+)*\<close>\<close>
  "parse_release s =
     (let ds = takeWhile is_ascii_digit s
      in if ds = [] then None
         else (case release_tail (dropWhile is_ascii_digit s) of
                 (ns, r) \<Rightarrow> Some (dec_val ds # ns, r)))"

definition parse_epoch :: "string \<Rightarrow> nat \<times> string" where
  \<comment> \<open>\<open>(?:([0-9]+)!)?\<close>; no epoch is epoch 0\<close>
  "parse_epoch s =
     (let ds = takeWhile is_ascii_digit s; r = dropWhile is_ascii_digit s
      in if ds \<noteq> [] \<and> take 1 r = ''!'' then (dec_val ds, drop 1 r) else (0, s))"

definition pre_letter :: "string \<Rightarrow> string" where
  \<comment> \<open>\<open>_parse_letter_version\<close>: alpha is a, beta is b, c, pre and preview are rc\<close>
  "pre_letter l =
     (if l = ''alpha'' then ''a'' else if l = ''beta'' then ''b''
      else if l = ''c'' \<or> l = ''pre'' \<or> l = ''preview'' then ''rc'' else l)"

definition parse_pre :: "string \<Rightarrow> (string \<times> nat) option \<times> string" where
  "parse_pre s =
     (case letter_number [''alpha'', ''a'', ''beta'', ''b'', ''preview'', ''pre'', ''c'', ''rc''] s of
        None \<Rightarrow> (None, s)
      | Some (l, n, r) \<Rightarrow> (Some (pre_letter l, case n of None \<Rightarrow> 0 | Some k \<Rightarrow> k), r))"

definition parse_post :: "string \<Rightarrow> nat option \<times> string" where
  \<comment> \<open>\<open>-[0-9]+\<close>, or a letter form with post, rev or r\<close>
  "parse_post s =
     (if take 1 s = ''-'' \<and> takeWhile is_ascii_digit (drop 1 s) \<noteq> []
      then (Some (dec_val (takeWhile is_ascii_digit (drop 1 s))),
            dropWhile is_ascii_digit (drop 1 s))
      else (case letter_number [''post'', ''rev'', ''r''] s of
              None \<Rightarrow> (None, s)
            | Some (l, n, r) \<Rightarrow> (Some (case n of None \<Rightarrow> 0 | Some k \<Rightarrow> k), r)))"

definition parse_dev :: "string \<Rightarrow> nat option \<times> string" where
  "parse_dev s =
     (case letter_number [''dev''] s of
        None \<Rightarrow> (None, s)
      | Some (l, n, r) \<Rightarrow> (Some (case n of None \<Rightarrow> 0 | Some k \<Rightarrow> k), r))"

datatype local_seg = Alpha string | Num nat

definition local_seg_of :: "string \<Rightarrow> local_seg" where
  \<comment> \<open>\<open>_parse_local_version\<close>: a part of digits is a number, any other part is
      lower-cased\<close>
  "local_seg_of part =
     (if list_all is_ascii_digit part then Num (dec_val part) else Alpha (map ascii_lower part))"

function local_tail :: "string \<Rightarrow> local_seg list \<times> string" where
  \<comment> \<open>\<open>(?:[-_\.][a-z0-9]+)*\<close>\<close>
  "local_tail s =
     (case s of
        [] \<Rightarrow> ([], s)
      | c # cs \<Rightarrow>
          if is_sep c \<and> takeWhile is_ascii_alnum cs \<noteq> []
          then (case local_tail (dropWhile is_ascii_alnum cs) of
                  (segs, r) \<Rightarrow> (local_seg_of (takeWhile is_ascii_alnum cs) # segs, r))
          else ([], s))"
  by pat_completeness auto
termination
  by (relation "measure length") (auto simp: length_dropWhile_le less_Suc_eq_le)

declare local_tail.simps [simp del]

definition parse_local :: "string \<Rightarrow> local_seg list option \<times> string" where
  \<comment> \<open>\<open>(?:\+([a-z0-9]+(?:[-_\.][a-z0-9]+)*))?\<close>\<close>
  "parse_local s =
     (if take 1 s = ''+'' \<and> takeWhile is_ascii_alnum (drop 1 s) \<noteq> []
      then (case local_tail (dropWhile is_ascii_alnum (drop 1 s)) of
              (segs, r) \<Rightarrow> (Some (local_seg_of (takeWhile is_ascii_alnum (drop 1 s)) # segs), r))
      else (None, s))"

record pkg_ver =
  epoch :: nat
  release :: "nat list"
  pre :: "(string \<times> nat) option"
  post :: "nat option"
  dev :: "nat option"
  local_ver :: "local_seg list option"

definition parse_version :: "string \<Rightarrow> pkg_ver option" where
  \<comment> \<open>\<open>Version(s)\<close>; \<open>None\<close> is InvalidVersion\<close>
  "parse_version s =
     (let s1 = dropWhile py_isspace s;
          s2 = (case match_lit ''v'' s1 of Some r \<Rightarrow> r | None \<Rightarrow> s1)
      in case parse_epoch s2 of (ep, s3) \<Rightarrow>
         (case parse_release s3 of
            None \<Rightarrow> None
          | Some (rel, s4) \<Rightarrow>
              (case parse_pre s4 of (pr, s5) \<Rightarrow>
               case parse_post s5 of (po, s6) \<Rightarrow>
               case parse_dev s6 of (de, s7) \<Rightarrow>
               case parse_local s7 of (lo, s8) \<Rightarrow>
                 if list_all py_isspace s8
                 then Some \<lparr>epoch = ep, release = rel, pre = pr, post = po, dev = de,
                             local_ver = lo\<rparr>
                 else None)))"

datatype 'a inf = NegInf | Fin 'a | PosInf

fun inf_lt :: "('a \<Rightarrow> 'a \<Rightarrow> bool) \<Rightarrow> 'a inf \<Rightarrow> 'a inf \<Rightarrow> bool" where
  \<comment> \<open>\<open><\<close> with the library's Infinity and NegativeInfinity, on unequal operands\<close>
  "inf_lt lt (Fin a) (Fin b) = lt a b"
| "inf_lt lt NegInf b = (b \<noteq> NegInf)"
| "inf_lt lt a PosInf = (a \<noteq> PosInf)"
| "inf_lt lt a b = False"

fun seg_lt :: "local_seg \<Rightarrow> local_seg \<Rightarrow> bool" where
  \<comment> \<open>a local part is keyed \<open>(NegativeInfinity, s)\<close> if alphanumeric, \<open>(n, "")\<close> if a
      number\<close>
  "seg_lt (Alpha a) (Alpha b) = str_lt a b"
| "seg_lt (Alpha a) (Num n) = True"
| "seg_lt (Num m) (Alpha b) = False"
| "seg_lt (Num m) (Num n) = (m < n)"

definition pre_lt :: "string \<times> nat \<Rightarrow> string \<times> nat \<Rightarrow> bool" where
  "pre_lt a b = (if fst a = fst b then snd a < snd b else str_lt (fst a) (fst b))"

definition strip_zeros :: "nat list \<Rightarrow> nat list" where
  \<comment> \<open>the release without its trailing zeros\<close>
  "strip_zeros ns = rev (dropWhile (\<lambda>n. n = 0) (rev ns))"

type_synonym pkg_key =
  "nat \<times> nat list \<times> (string \<times> nat) inf \<times> nat inf \<times> nat inf \<times> local_seg list inf"

definition cmpkey :: "pkg_ver \<Rightarrow> pkg_key" where
  \<comment> \<open>\<open>_cmpkey\<close>\<close>
  "cmpkey v =
     (epoch v,
      strip_zeros (release v),
      (if pre v = None \<and> post v = None \<and> dev v \<noteq> None then NegInf
       else case pre v of None \<Rightarrow> PosInf | Some p \<Rightarrow> Fin p),
      (case post v of None \<Rightarrow> NegInf | Some n \<Rightarrow> Fin n),
      (case dev v of None \<Rightarrow> PosInf | Some n \<Rightarrow> Fin n),
      (case local_ver v of None \<Rightarrow> NegInf | Some segs \<Rightarrow> Fin segs))"

fun key_lt :: "pkg_key \<Rightarrow> pkg_key \<Rightarrow> bool" where
  \<comment> \<open>\<open><\<close> on the key tuples\<close>
  "key_lt (e1, r1, p1, q1, d1, l1) (e2, r2, p2, q2, d2, l2) =
     (if e1 \<noteq> e2 then e1 < e2
      else if r1 \<noteq> r2 then lex_lt (<) r1 r2
      else if p1 \<noteq> p2 then inf_lt pre_lt p1 p2
      else if q1 \<noteq> q2 then inf_lt (<) q1 q2
      else if d1 \<noteq> d2 then inf_lt (<) d1 d2
      else if l1 \<noteq> l2 then inf_lt (lex_lt seg_lt) l1 l2
      else False)"

definition pkg_parse :: "string option \<Rightarrow> py_exc + pkg_key" where
  \<comment> \<open>\<open>pkg_version.parse(x)\<close>, kept as its comparison key\<close>
  "pkg_parse x =
     (case x of
        None \<Rightarrow> Inl TypeError
      | Some s \<Rightarrow> (case parse_version s of None \<Rightarrow> Inl InvalidVersion | Some v \<Rightarrow> Inr (cmpkey v)))"

subsection \<open>\<open>is_version_newer\<close>\<close>

text \<open>
  \<^verbatim>\<open>
  def is_version_newer(installed, latest):
      try:
          return pkg_version.parse(latest) > pkg_version.parse(installed)
      except Exception:
          try:
              i_parts = [int(x) for x in installed.split(".") if x.isdigit()]
              l_parts = [int(x) for x in latest.split(".") if x.isdigit()]
              return l_parts > i_parts
          except Exception:
              return latest != installed and latest is not None
  \<close>
\<close>

fun ints_of :: "string list \<Rightarrow> py_exc + nat list" where
  "ints_of [] = Inr []"
| "ints_of (x # xs) =
     (case py_int x of
        Inl e \<Rightarrow> Inl e
      | Inr n \<Rightarrow> (case ints_of xs of Inl e \<Rightarrow> Inl e | Inr ns \<Rightarrow> Inr (n # ns)))"

definition naive_parts :: "string option \<Rightarrow> py_exc + nat list" where
  \<comment> \<open>\<open>[int(x) for x in v.split(".") if x.isdigit()]\<close>\<close>
  "naive_parts v =
     (case v of
        None \<Rightarrow> Inl AttributeError
      | Some s \<Rightarrow> ints_of (filter py_isdigit (split_on CHR ''.'' s)))"

definition is_version_newer :: "string option \<Rightarrow> string option \<Rightarrow> bool" where
  "is_version_newer installed latest =
     (case (pkg_parse latest, pkg_parse installed) of
        (Inr l, Inr i) \<Rightarrow> key_lt i l
      | _ \<Rightarrow>
          (case naive_parts installed of
             Inl e \<Rightarrow> latest \<noteq> installed \<and> latest \<noteq> None
           | Inr i_parts \<Rightarrow>
               (case naive_parts latest of
                  Inl e \<Rightarrow> latest \<noteq> installed \<and> latest \<noteq> None
                | Inr l_parts \<Rightarrow> lex_lt (<) i_parts l_parts)))"

subsection \<open>Numeric versions, as the specification words them\<close>

text \<open>
  A numeric version is a non-empty sequence of non-empty groups of ASCII digits,
  written with dots between the groups. The specification compares two of them
  by numeric component after padding the shorter one with zeros on the right.
\<close>

fun join_dots :: "string list \<Rightarrow> string" where
  "join_dots [] = []"
| "join_dots [g] = g"
| "join_dots (g # h # gs) = g @ CHR ''.'' # join_dots (h # gs)"

definition numeric_version :: "string list \<Rightarrow> bool" where
  "numeric_version gs = (gs \<noteq> [] \<and> list_all (\<lambda>g. g \<noteq> [] \<and> list_all is_ascii_digit g) gs)"

definition zero_pad :: "nat \<Rightarrow> nat list \<Rightarrow> nat list" where
  "zero_pad n xs = xs @ replicate (n - length xs) 0"

definition padded_lt :: "nat list \<Rightarrow> nat list \<Rightarrow> bool" where
  "padded_lt xs ys =
     (let n = max (length xs) (length ys) in lex_lt (<) (zero_pad n xs) (zero_pad n ys))"

definition no_trailing_zero :: "nat list \<Rightarrow> bool" where
  "no_trailing_zero xs = (xs = [] \<or> last xs \<noteq> 0)"

definition dots_tail :: "string list \<Rightarrow> string" where
  "dots_tail gs = concat (map (\<lambda>g. CHR ''.'' # g) gs)"

subsection \<open>Dot-separated components, as the specification words them\<close>

text \<open>
  A version string seen as the list of its components, the pieces between the
  dots: any string is \<open>join_dots\<close> of such a list. An all-digit component is a
  non-empty piece of ASCII digits; the numeric components of a string are the
  values of its all-digit components, in order, the other components dropped.
\<close>

definition dot_free_components :: "string list \<Rightarrow> bool" where
  "dot_free_components cs = (cs \<noteq> [] \<and> list_all (\<lambda>c. CHR ''.'' \<notin> set c) cs)"

definition all_digit :: "string \<Rightarrow> bool" where
  "all_digit c = (c \<noteq> [] \<and> list_all is_ascii_digit c)"

definition numeric_components :: "string list \<Rightarrow> nat list" where
  "numeric_components cs = map dec_val (filter all_digit cs)"

definition int_rejects :: "string \<Rightarrow> bool" where
  \<comment> \<open>a component that \<open>isdigit\<close> accepts and \<open>int\<close> rejects: digits with a superscript
      digit among them\<close>
  "int_rejects c = (py_isdigit c \<and> \<not> all_digit c)"

section \<open>Exceptions and outcomes\<close>

datatype exn =
  Exc string \<comment> \<open>an instance of a class derived from \<open>Exception\<close>, by class name\<close>
| BaseExc string \<comment> \<open>an instance of \<open>SystemExit\<close>, \<open>KeyboardInterrupt\<close> or \<open>GeneratorExit\<close>,
    which \<open>except Exception\<close> does not catch\<close>

datatype 'a outcome = Returned 'a | Propagated exn

section \<open>The check workflow: \<open>_check_updates_and_update_ui\<close>\<close>

subsection \<open>JSON values and Python truthiness\<close>

datatype json =
  JNull | JBool bool | JNum int | JStr string | JArr "json list" | JObj "(string \<times> json) list"

fun truthy :: "json \<Rightarrow> bool" where
  \<comment> \<open>\<open>bool(x)\<close>; \<open>JNull\<close> is \<open>None\<close>\<close>
  "truthy JNull = False"
| "truthy (JBool b) = b"
| "truthy (JNum n) = (n \<noteq> 0)"
| "truthy (JStr s) = (s \<noteq> [])"
| "truthy (JArr xs) = (xs \<noteq> [])"
| "truthy (JObj kvs) = (kvs \<noteq> [])"

definition dict_get :: "(string \<times> json) list \<Rightarrow> string \<Rightarrow> json" where
  \<comment> \<open>\<open>d.get(k)\<close>: \<open>None\<close> for a missing key. The pairs of an object have distinct keys.\<close>
  "dict_get kvs k = (case map_of kvs k of None \<Rightarrow> JNull | Some v \<Rightarrow> v)"

definition py_or :: "json \<Rightarrow> json \<Rightarrow> json" where
  \<comment> \<open>\<open>a or b\<close>\<close>
  "py_or a b = (if truthy a then a else b)"

subsection \<open>The release endpoint\<close>

text \<open>
  What the GET of the release endpoint yields: a transport error, a timeout, a
  status that \<open>urlopen\<close> raises \<open>HTTPError\<close> for, a body that \<open>json.loads\<close> rejects,
  or a body that parses to a JSON value.
  \<^verbatim>\<open>
  def fetch_latest_release_info():
      try:
          req = urllib.request.Request(GITHUB_RELEASES_API, headers={...})
          with urllib.request.urlopen(req, timeout=15) as resp:
              data = resp.read().decode("utf-8")
              return json.loads(data)
      except urllib.error.HTTPError as he:
          print("HTTP error fetching release info:", he)
      except Exception as e:
          print("Error fetching release info:", e)
      return None
  \<close>
\<close>

datatype release_reply =
  TransportError | Timeout | HTTPStatusError nat | MalformedJSON | Reply json

fun fetch_latest_release_info :: "release_reply \<Rightarrow> json option" where
  "fetch_latest_release_info (Reply j) = Some j"
| "fetch_latest_release_info (HTTPStatusError code) = None"
| "fetch_latest_release_info r = None"

subsection \<open>Settings and the workflow\<close>

text \<open>
  \<open>settings\<close> is the module's global dictionary, \<open>settings_file\<close> the content of
  \<open>settings.json\<close> on disk, \<open>update_status\<close> the last status given to
  \<open>set_update_status\<close>.
  \<^verbatim>\<open>
  def save_settings():
      try:
          with open(SETTINGS_FILE, "w") as f:
              json.dump(settings, f, indent=2)
      except Exception as e:
          print("Failed to save settings:", e)
  \<close>
\<close>

record app_state =
  settings :: "string \<rightharpoonup> json"
  settings_file :: "(string \<rightharpoonup> json) option"
  file_writable :: bool
  update_status :: "(bool \<times> string) option"

definition SCRIPT_VERSION :: string where
  "SCRIPT_VERSION = ''1.0.9''"

definition save_settings :: "app_state \<Rightarrow> app_state" where
  "save_settings st =
     (if file_writable st then st\<lparr>settings_file := Some (settings st)\<rparr> else st)"

definition set_update_status :: "bool \<Rightarrow> string \<Rightarrow> app_state \<Rightarrow> app_state" where
  "set_update_status available label_text st = st\<lparr>update_status := Some (available, label_text)\<rparr>"

definition semver_normalize_json :: "json \<Rightarrow> exn + string option" where
  \<comment> \<open>\<open>semver_normalize\<close> on a value read from JSON: a falsy value gives \<open>None\<close>, a
      string is normalised, any other value has no \<open>strip\<close>\<close>
  "semver_normalize_json j =
     (if \<not> truthy j then Inr None
      else case j of JStr s \<Rightarrow> Inr (semver_normalize (Some s)) | _ \<Rightarrow> Inl (Exc ''AttributeError''))"

definition str_truthy :: "string option \<Rightarrow> bool" where
  "str_truthy v = (case v of None \<Rightarrow> False | Some s \<Rightarrow> s \<noteq> [])"

definition tag_text :: "json \<Rightarrow> string" where
  \<comment> \<open>\<open>f"{tag}"\<close>; where it is used the tag is a string\<close>
  "tag_text tag = (case tag of JStr s \<Rightarrow> s | _ \<Rightarrow> ''None'')"

text \<open>
  \<^verbatim>\<open>
  def _check_updates_and_update_ui(self):
      latest = fetch_latest_release_info()
      if not latest:
          self.set_update_status(False, "Unable to check")
          return
      tag = latest.get("tag_name") or latest.get("name")
      tag_norm = semver_normalize(tag)
      installed = semver_normalize(settings.get("version", SCRIPT_VERSION))
      if tag_norm and installed and is_version_newer(installed, tag_norm):
          settings["last_release_tag"] = tag
          save_settings()
          self.set_update_status(True, f"Update available ({tag})")
      else:
          settings["last_release_tag"] = tag
          save_settings()
          self.set_update_status(False, "Up to date")
  \<close>
\<close>

definition check_updates_and_update_ui :: "release_reply \<Rightarrow> app_state \<Rightarrow> unit outcome \<times> app_state" where
  "check_updates_and_update_ui reply st =
     (case fetch_latest_release_info reply of
        None \<Rightarrow> (Returned (), set_update_status False ''Unable to check'' st)
      | Some latest \<Rightarrow>
          if \<not> truthy latest then (Returned (), set_update_status False ''Unable to check'' st)
          else (case latest of
            JObj kvs \<Rightarrow>
              (let tag = py_or (dict_get kvs ''tag_name'') (dict_get kvs ''name'')
               in case semver_normalize_json tag of
                    Inl e \<Rightarrow> (Propagated e, st)
                  | Inr tag_norm \<Rightarrow>
                      (case semver_normalize_json
                              (case settings st ''version'' of
                                 None \<Rightarrow> JStr SCRIPT_VERSION | Some v \<Rightarrow> v) of
                         Inl e \<Rightarrow> (Propagated e, st)
                       | Inr installed \<Rightarrow>
                           (let st' = save_settings
                                        (st\<lparr>settings := (settings st)(''last_release_tag'' \<mapsto> tag)\<rparr>)
                            in if str_truthy tag_norm \<and> str_truthy installed
                                  \<and> is_version_newer installed tag_norm
                               then (Returned (),
                                     set_update_status True
                                       (''Update available ('' @ tag_text tag @ '')'') st')
                               else (Returned (), set_update_status False ''Up to date'' st'))))
          | _ \<Rightarrow> (Propagated (Exc ''AttributeError''), st)))"

definition example_state :: app_state where
  \<comment> \<open>an installation at 1.0.9 that last saw the release v1.0.8\<close>
  "example_state =
     \<lparr>settings = [''version'' \<mapsto> JStr ''1.0.9'', ''last_release_tag'' \<mapsto> JStr ''v1.0.8'',
                   ''install_path_info'' \<mapsto> JNull],
      settings_file = Some [''version'' \<mapsto> JStr ''1.0.9'', ''last_release_tag'' \<mapsto> JStr ''v1.0.8'',
                   ''install_path_info'' \<mapsto> JNull],
      file_writable = True,
      update_status = None\<rparr>"

section \<open>Files\<close>

type_synonym path = string
type_synonym bytes = string

text \<open>
  The file system as the updater code sees it: the regular files with their
  content, the directories, and the paths that another process holds open, on
  which deleting, renaming and opening for writing fail.
\<close>

record fs =
  files :: "path \<rightharpoonup> bytes"
  dirs :: "path set"
  locked :: "path set"

definition path_exists :: "fs \<Rightarrow> path \<Rightarrow> bool" where
  \<comment> \<open>\<open>os.path.exists(p)\<close>\<close>
  "path_exists s p = (files s p \<noteq> None \<or> p \<in> dirs s)"

definition write_file :: "path \<Rightarrow> bytes \<Rightarrow> fs \<Rightarrow> fs" where
  "write_file p b s = s\<lparr>files := (files s)(p \<mapsto> b)\<rparr>"

subsection \<open>File operations\<close>

text \<open>
  Each operation yields the exception it raises, if any, and the file system
  after it. \<open>os.rename\<close> is the one of Windows: it fails when the destination
  exists.
\<close>

type_synonym 'a io = "fs \<Rightarrow> 'a \<times> fs"

definition os_remove :: "path \<Rightarrow> exn option io" where
  "os_remove p s =
     (if files s p = None then (Some (Exc ''FileNotFoundError''), s)
      else if p \<in> locked s then (Some (Exc ''PermissionError''), s)
      else (None, s\<lparr>files := (files s)(p := None)\<rparr>))"

definition os_rename :: "path \<Rightarrow> path \<Rightarrow> exn option io" where
  "os_rename src dst s =
     (if files s src = None then (Some (Exc ''FileNotFoundError''), s)
      else if src \<in> locked s \<or> dst \<in> locked s then (Some (Exc ''PermissionError''), s)
      else if src = dst then (None, s)
      else if path_exists s dst then (Some (Exc ''FileExistsError''), s)
      else (None, s\<lparr>files := (files s)(dst := files s src, src := None)\<rparr>))"

definition os_makedirs :: "path \<Rightarrow> exn option io" where
  \<comment> \<open>\<open>os.makedirs(p, exist_ok=True)\<close>\<close>
  "os_makedirs p s =
     (if p = [] then (Some (Exc ''FileNotFoundError''), s)
      else if files s p \<noteq> None then (Some (Exc ''FileExistsError''), s)
      else (None, s\<lparr>dirs := insert p (dirs s)\<rparr>))"

section \<open>Downloader: \<open>download_url_to_path\<close>\<close>

text \<open>
  The network is a function from the URL to what \<open>urlopen\<close> yields: an exception
  (a transport error, a timeout, or \<open>HTTPError\<close> for a status outside 2xx), or a
  response with its \<open>Content-Length\<close> header and its body stream. The stream is the
  list of the results of the successive \<open>resp.read(block_size)\<close> calls; once the
  list is used up the stream is at its end and \<open>read\<close> returns \<open>b""\<close>. A connection
  closed early ends the stream in the same way: \<open>HTTPResponse.read(amt)\<close> then
  returns \<open>b""\<close> and does not raise.
\<close>

datatype read_result = Data bytes | ReadRaises

record http_response =
  content_length :: "string option"
  stream :: "read_result list"

datatype urlopen_result = UrlopenRaises | Response http_response

datatype cb_result = CbReturns | CbRaises exn

type_synonym progress_callback = "nat \<Rightarrow> nat option \<Rightarrow> cb_result"

record dl_env =
  net :: "string \<Rightarrow> urlopen_result"
  disk_free :: nat \<comment> \<open>\<open>out.write(chunk)\<close> raises when the chunk is longer than this\<close>
  no_mkdir :: "path set" \<comment> \<open>the directories \<open>os.makedirs\<close> is not permitted to create\<close>

definition dirname :: "char \<Rightarrow> path \<Rightarrow> path" where
  \<comment> \<open>\<open>os.path.dirname(p)\<close> with separator \<open>sep\<close>: what precedes the last separator\<close>
  "dirname sep p =
     (let parts = split_on sep p
      in if length parts \<le> 1 then []
         else (let head = take (length p - length (last parts)) p;
                   stripped = rev (dropWhile (\<lambda>c. c = sep) (rev head))
               in if stripped = [] then head else stripped))"

datatype loop_end = StreamEnd | Raised exn

fun download_loop ::
  "read_result list \<Rightarrow> progress_callback option \<Rightarrow> nat option \<Rightarrow> nat \<Rightarrow>
   bytes \<Rightarrow> nat \<Rightarrow> (nat \<times> nat option) list \<Rightarrow>
   loop_end \<times> bytes \<times> nat \<times> (nat \<times> nat option) list" where
  \<comment> \<open>the \<open>while True\<close> loop: the bytes written to \<open>out\<close>, the counter \<open>downloaded\<close>,
      and the calls of the callback that returned\<close>
  "download_loop [] cb tot space written downloaded calls =
     (StreamEnd, written, downloaded, calls)"
| "download_loop (ReadRaises # rest) cb tot space written downloaded calls =
     (Raised (Exc ''OSError''), written, downloaded, calls)"
| "download_loop (Data chunk # rest) cb tot space written downloaded calls =
     (if chunk = [] then (StreamEnd, written, downloaded, calls)
      else if space < length chunk then (Raised (Exc ''OSError''), written, downloaded, calls)
      else (let written' = written @ chunk;
                downloaded' = downloaded + length chunk;
                space' = space - length chunk
            in case cb of
                 None \<Rightarrow> download_loop rest cb tot space' written' downloaded' calls
               | Some f \<Rightarrow>
                   (case f downloaded' tot of
                      CbReturns \<Rightarrow>
                        download_loop rest cb tot space' written' downloaded'
                          (calls @ [(downloaded', tot)])
                    | CbRaises (Exc n) \<Rightarrow>
                        download_loop rest cb tot space' written' downloaded' calls
                    | CbRaises (BaseExc n) \<Rightarrow>
                        (Raised (BaseExc n), written', downloaded', calls))))"

definition header_total :: "string option \<Rightarrow> exn + nat option" where
  \<comment> \<open>\<open>int(total) if total and total.isdigit() else None\<close>\<close>
  "header_total h =
     (case h of
        None \<Rightarrow> Inr None
      | Some t \<Rightarrow>
          if t \<noteq> [] \<and> py_isdigit t
          then (case py_int t of Inl e \<Rightarrow> Inl (Exc ''ValueError'') | Inr n \<Rightarrow> Inr (Some n))
          else Inr None)"

text \<open>
  \<^verbatim>\<open>
  def download_url_to_path(url, dest_path, progress_callback=None):
      try:
          req = urllib.request.Request(url, headers={"User-Agent": "ModManager-Updater"})
          with urllib.request.urlopen(req, timeout=60) as resp:
              total = resp.getheader('Content-Length')
              total = int(total) if total and total.isdigit() else None
              os.makedirs(os.path.dirname(dest_path), exist_ok=True)
              with open(dest_path, "wb") as out:
                  downloaded = 0
                  block_size = 8192
                  while True:
                      chunk = resp.read(block_size)
                      if not chunk:
                          break
                      out.write(chunk)
                      downloaded += len(chunk)
                      if progress_callback:
                          try:
                              progress_callback(downloaded, total)
                          except Exception:
                              pass
          return True
      except Exception as e:
          print(f"Download failed ({url} -> {dest_path}):", e)
          return False
  \<close>
  The result is the outcome of the call, the file system after it, and the calls
  of the callback that returned.
\<close>

definition download_url_to_path ::
  "char \<Rightarrow> dl_env \<Rightarrow> string \<Rightarrow> path \<Rightarrow> progress_callback option \<Rightarrow> fs \<Rightarrow>
   bool outcome \<times> fs \<times> (nat \<times> nat option) list" where
  "download_url_to_path sep env url dest_path progress_callback s =
     (case net env url of
        UrlopenRaises \<Rightarrow> (Returned False, s, [])
      | Response resp \<Rightarrow>
          (case header_total (content_length resp) of
             Inl e \<Rightarrow> (Returned False, s, [])
           | Inr tot \<Rightarrow>
               if dirname sep dest_path \<in> no_mkdir env then (Returned False, s, [])
               else (case os_makedirs (dirname sep dest_path) s of
                 (Some e, s1) \<Rightarrow> (Returned False, s1, [])
               | (None, s1) \<Rightarrow>
                     (if dest_path \<in> locked s1 \<or> dest_path \<in> dirs s1
                        then (Returned False, s1, [])
                        else (case download_loop (stream resp) progress_callback tot
                                     (disk_free env) [] 0 [] of
                                (StreamEnd, written, downloaded, calls) \<Rightarrow>
                                  (Returned True, write_file dest_path written s1, calls)
                              | (Raised (Exc n), written, downloaded, calls) \<Rightarrow>
                                  (Returned False, write_file dest_path written s1, calls)
                              | (Raised (BaseExc n), written, downloaded, calls) \<Rightarrow>
                                  (Propagated (BaseExc n), write_file dest_path written s1, calls))))))"

subsection \<open>What a stream delivers\<close>

fun received :: "read_result list \<Rightarrow> bytes" where
  \<comment> \<open>the bytes a stream delivers before it ends or fails\<close>
  "received [] = []"
| "received (ReadRaises # rest) = []"
| "received (Data chunk # rest) = (if chunk = [] then [] else chunk @ received rest)"




subsection \<open>Example environments\<close>

definition empty_fs :: fs where
  "empty_fs = \<lparr>files = Map.empty, dirs = {}, locked = {}\<rparr>"

definition short_body_net :: "string \<Rightarrow> urlopen_result" where
  \<comment> \<open>a server that announces ten bytes and closes the connection after four\<close>
  "short_body_net url = Response \<lparr>content_length = Some ''10'', stream = [Data ''abcd'']\<rparr>"

definition short_body_env :: dl_env where
  "short_body_env = \<lparr>net = short_body_net, disk_free = 1000, no_mkdir = {}\<rparr>"



section \<open>The installer: \<open>InstallerUpdater\<close> of \<open>update.py\<close>\<close>

subsection \<open>Path and string helpers\<close>

definition path_join :: "char \<Rightarrow> path \<Rightarrow> path \<Rightarrow> path" where
  \<comment> \<open>\<open>os.path.join(a, b)\<close> with separator \<open>sep\<close>: an absolute \<open>b\<close> replaces \<open>a\<close>\<close>
  "path_join sep a b =
     (if take 1 b = [sep] then b
      else if a = [] \<or> last a = sep then a @ b
      else a @ sep # b)"

definition path_join_list :: "char \<Rightarrow> path \<Rightarrow> path list \<Rightarrow> path" where
  \<comment> \<open>\<open>os.path.join(a, *parts)\<close>\<close>
  "path_join_list sep a parts = foldl (path_join sep) a parts"

function py_replace :: "string \<Rightarrow> string \<Rightarrow> string \<Rightarrow> string" where
  \<comment> \<open>\<open>s.replace(old, new)\<close>: every occurrence, left to right\<close>
  "py_replace old new [] = (if old = [] then new else [])"
| "py_replace old new (c # cs) =
     (if old = [] then new @ c # py_replace old new cs
      else if startswith (c # cs) old
      then new @ py_replace old new (drop (length old) (c # cs))
      else c # py_replace old new cs)"
  by pat_completeness auto
termination
  by (relation "measure (\<lambda>(old, new, s). length s)") auto

declare py_replace.simps [simp del]

definition py_lower_char :: "char \<Rightarrow> char" where
  \<comment> \<open>\<open>str.lower\<close> on one character: A..Z and the capital letters 192..222 but 215\<close>
  "py_lower_char c =
     (let n = (of_char c :: nat)
      in if (65 \<le> n \<and> n \<le> 90) \<or> (192 \<le> n \<and> n \<le> 222 \<and> n \<noteq> 215) then char_of (n + 32)
         else c)"

definition py_lower :: "string \<Rightarrow> string" where
  "py_lower s = map py_lower_char s"

definition endswith :: "string \<Rightarrow> string \<Rightarrow> bool" where
  \<comment> \<open>\<open>s.endswith(p)\<close>\<close>
  "endswith s p = (length p \<le> length s \<and> drop (length s - length p) s = p)"

fun digits_underscores :: "string \<Rightarrow> bool" where
  \<comment> \<open>digits, with single underscores between them\<close>
  "digits_underscores [] = False"
| "digits_underscores [c] = is_ascii_digit c"
| "digits_underscores (c # d # cs) =
     (is_ascii_digit c \<and>
      (if d = CHR ''_'' then digits_underscores cs else digits_underscores (d # cs)))"

definition int_parses :: "string \<Rightarrow> bool" where
  \<comment> \<open>whether \<open>int(s)\<close> returns: whitespace around, one sign, digits\<close>
  "int_parses s =
     (let t = py_strip s
      in digits_underscores
           (case t of [] \<Rightarrow> [] | c # cs \<Rightarrow> if c = CHR ''+'' \<or> c = CHR ''-'' then cs else t))"

subsection \<open>\<open>download_file\<close>\<close>

text \<open>
  \<^verbatim>\<open>
  def download_file(self, url, dest):
      with requests.get(url, stream=True) as r:
          r.raise_for_status()
          total = int(r.headers.get('content-length', 0))
          downloaded = 0
          with open(dest, 'wb') as f:
              for chunk in r.iter_content(chunk_size=8192):
                  if chunk:
                      f.write(chunk)
                      downloaded += len(chunk)
                      percent = int(downloaded / total * 100) if total else 0
                      self.progress.set(percent)
                      self.root.update_idletasks()
  \<close>
  The stream of a response is here the list of what \<open>iter_content\<close> yields; the end
  of the list ends the iteration. The progress bar is not part of the state.
\<close>

record requests_response = http_response +
  status_code :: nat

datatype get_result = GetRaises | Got requests_response

record web_env =
  web :: "string \<Rightarrow> get_result"
  web_disk_free :: nat

fun write_chunks :: "read_result list \<Rightarrow> nat \<Rightarrow> bytes \<Rightarrow> exn option \<times> bytes" where
  "write_chunks [] space written = (None, written)"
| "write_chunks (ReadRaises # rest) space written =
     (Some (Exc ''ChunkedEncodingError''), written)"
| "write_chunks (Data chunk # rest) space written =
     (if chunk = [] then write_chunks rest space written
      else if space < length chunk then (Some (Exc ''OSError''), written)
      else write_chunks rest (space - length chunk) (written @ chunk))"

definition download_file :: "'a web_env_scheme \<Rightarrow> string \<Rightarrow> path \<Rightarrow> exn option io" where
  "download_file env url dest s =
     (case web env url of
        GetRaises \<Rightarrow> (Some (Exc ''ConnectionError''), s)
      | Got r \<Rightarrow>
          if 400 \<le> status_code r \<and> status_code r < 600 then (Some (Exc ''HTTPError''), s)
          else if (case content_length r of None \<Rightarrow> False | Some h \<Rightarrow> \<not> int_parses h)
          then (Some (Exc ''ValueError''), s)
          else if dest \<in> locked s \<or> dest \<in> dirs s then (Some (Exc ''PermissionError''), s)
          else (case write_chunks (stream r) (web_disk_free env) [] of
                  (e, written) \<Rightarrow> (e, write_file dest written s)))"

subsection \<open>\<open>unzip_and_merge\<close>\<close>

text \<open>
  What \<open>zipfile\<close> finds in an archive: the members in the order of \<open>namelist()\<close>,
  each with its data, a header that \<open>zip_ref.open\<close> rejects, or data whose
  decompression or checksum fails after the given bytes were copied.
  \<^verbatim>\<open>
  def unzip_and_merge(self, zip_path, dest_folder):
      with zipfile.ZipFile(zip_path, 'r') as zip_ref:
          for member in zip_ref.namelist():
              # Remove top-level "resources/" folder if present
              parts = member.split(os.sep)
              if parts[0].lower() == resources_folder_name.lower():
                  parts = parts[1:]
              target_path = os.path.join(dest_folder, *parts)
              if member.endswith('/'):
                  os.makedirs(target_path, exist_ok=True)
              else:
                  os.makedirs(os.path.dirname(target_path), exist_ok=True)
                  with zip_ref.open(member) as source, open(target_path, 'wb') as target:
                      shutil.copyfileobj(source, target)
  \<close>
\<close>

datatype member_data = Intact bytes | BadHeader | BadData bytes

datatype zip_file = BadZipFile | Archive "(string \<times> member_data) list"

definition resources_folder_name :: string where
  "resources_folder_name = ''resources''"

definition member_target :: "char \<Rightarrow> path \<Rightarrow> string \<Rightarrow> path" where
  "member_target sep dest_folder member =
     (let parts = split_on sep member;
          parts' = (if py_lower (hd parts) = py_lower resources_folder_name then tl parts else parts)
      in path_join_list sep dest_folder parts')"

fun unzip_members :: "char \<Rightarrow> (string \<times> member_data) list \<Rightarrow> path \<Rightarrow> exn option io" where
  "unzip_members sep [] dest_folder s = (None, s)"
| "unzip_members sep ((member, data) # rest) dest_folder s =
     (let target_path = member_target sep dest_folder member
      in if endswith member ''/''
         then (case os_makedirs target_path s of
                 (Some e, s') \<Rightarrow> (Some e, s')
               | (None, s') \<Rightarrow> unzip_members sep rest dest_folder s')
         else (case os_makedirs (dirname sep target_path) s of
                 (Some e, s') \<Rightarrow> (Some e, s')
               | (None, s') \<Rightarrow>
                   (case data of
                      BadHeader \<Rightarrow> (Some (Exc ''BadZipFile''), s')
                    | _ \<Rightarrow>
                        if target_path \<in> locked s' \<or> target_path \<in> dirs s'
                        then (Some (Exc ''PermissionError''), s')
                        else (case data of
                                Intact b \<Rightarrow>
                                  unzip_members sep rest dest_folder (write_file target_path b s')
                              | BadData b \<Rightarrow>
                                  (Some (Exc ''BadZipFile''), write_file target_path b s')
                              | BadHeader \<Rightarrow> (Some (Exc ''BadZipFile''), s')))))"

definition unzip_and_merge :: "char \<Rightarrow> zip_file \<Rightarrow> path \<Rightarrow> exn option io" where
  "unzip_and_merge sep archive dest_folder s =
     (case archive of
        BadZipFile \<Rightarrow> (Some (Exc ''BadZipFile''), s)
      | Archive members \<Rightarrow> unzip_members sep members dest_folder s)"

subsection \<open>\<open>run\<close>\<close>

definition io_then :: "exn option io \<Rightarrow> exn option io \<Rightarrow> exn option io" where
  \<comment> \<open>one statement after another: an exception ends the sequence\<close>
  "io_then f g s = (case f s of (Some e, s') \<Rightarrow> (Some e, s') | (None, s') \<Rightarrow> g s')"

definition io_if :: "(fs \<Rightarrow> bool) \<Rightarrow> exn option io \<Rightarrow> exn option io" where
  "io_if c f s = (if c s then f s else (None, s))"

definition GITHUB_RELEASES_URL :: string where
  "GITHUB_RELEASES_URL = ''https://github.com/Sanddino00/Mod-Manager/releases/latest/download''"

definition MODMANAGER_EXE_NAME :: string where
  "MODMANAGER_EXE_NAME = ''modmanager.exe''"

definition UPDATE_EXE_NAME :: string where
  "UPDATE_EXE_NAME = ''update.exe''"

definition RESOURCES_ZIP_NAME :: string where
  "RESOURCES_ZIP_NAME = ''resources.zip''"

record installer_env = web_env +
  unzip :: "bytes \<Rightarrow> zip_file" \<comment> \<open>how \<open>zipfile\<close> reads a file's bytes\<close>
  modmanager_holds :: "path set" \<comment> \<open>the files a running Mod-Manager holds open\<close>

definition close_modmanager :: "installer_env \<Rightarrow> exn option io" where
  \<comment> \<open>\<open>taskkill /f /im modmanager.exe\<close>, output discarded: the files the process held
      are released\<close>
  "close_modmanager env s = (None, s\<lparr>locked := locked s - modmanager_holds env\<rparr>)"

text \<open>
  \<^verbatim>\<open>
  def run(self):
      install_dir = self.path_var.get()
      if not install_dir:
          messagebox.showerror("Error", "Please select an installation path.")
          return
      self.save_install_path()
      os.makedirs(install_dir, exist_ok=True)
      modmanager_path = os.path.join(install_dir, MODMANAGER_EXE_NAME)
      update_path = os.path.join(install_dir, UPDATE_EXE_NAME)
      resources_path = os.path.join(install_dir, resources_folder_name)
      ...
      self.close_modmanager(install_dir)
      update_new_path = os.path.join(install_dir, "update_new.exe")
      if not os.path.exists(update_new_path):
          ...
          self.download_file(f"{GITHUB_RELEASES_URL}/{UPDATE_EXE_NAME}", update_new_path)
      ...
      if os.path.exists(modmanager_path):
          old_path = modmanager_path.replace(".exe", "_old.exe")
          os.rename(modmanager_path, old_path)
      self.download_file(f"{GITHUB_RELEASES_URL}/{MODMANAGER_EXE_NAME}", modmanager_path)
      if os.path.exists(modmanager_path.replace(".exe", "_old.exe")):
          os.remove(modmanager_path.replace(".exe", "_old.exe"))
      ...
      tmp_zip = os.path.join(install_dir, RESOURCES_ZIP_NAME)
      self.download_file(f"{GITHUB_RELEASES_URL}/{RESOURCES_ZIP_NAME}", tmp_zip)
      os.makedirs(resources_path, exist_ok=True)
      self.unzip_and_merge(tmp_zip, resources_path)
      os.remove(tmp_zip)
      if self.create_shortcut_var.get():
          self.create_shortcut(modmanager_path)
      ...
      subprocess.Popen(modmanager_path)
      self.root.after(2000, self.root.destroy)
  \<close>
  The status label and the progress bar are not part of the state.
\<close>

definition run_files :: "char \<Rightarrow> installer_env \<Rightarrow> path \<Rightarrow> exn option io" where
  \<comment> \<open>the file operations of \<open>run\<close>, from \<open>os.makedirs(install_dir)\<close> to
      \<open>os.remove(tmp_zip)\<close>\<close>
  "run_files sep env install_dir =
     (let modmanager_path = path_join sep install_dir MODMANAGER_EXE_NAME;
          resources_path = path_join sep install_dir resources_folder_name;
          update_new_path = path_join sep install_dir ''update_new.exe'';
          old_path = py_replace ''.exe'' ''_old.exe'' modmanager_path;
          tmp_zip = path_join sep install_dir RESOURCES_ZIP_NAME
      in io_then (os_makedirs install_dir)
        (io_then (close_modmanager env)
        (io_then (io_if (\<lambda>s. \<not> path_exists s update_new_path)
                    (download_file env (GITHUB_RELEASES_URL @ ''/'' @ UPDATE_EXE_NAME)
                       update_new_path))
        (io_then (io_if (\<lambda>s. path_exists s modmanager_path) (os_rename modmanager_path old_path))
        (io_then (download_file env (GITHUB_RELEASES_URL @ ''/'' @ MODMANAGER_EXE_NAME)
                    modmanager_path)
        (io_then (io_if (\<lambda>s. path_exists s old_path) (os_remove old_path))
        (io_then (download_file env (GITHUB_RELEASES_URL @ ''/'' @ RESOURCES_ZIP_NAME) tmp_zip)
        (io_then (os_makedirs resources_path)
        (io_then (\<lambda>s. case files s tmp_zip of
                         None \<Rightarrow> (Some (Exc ''FileNotFoundError''), s)
                       | Some b \<Rightarrow> unzip_and_merge sep (unzip env b) resources_path s)
                 (os_remove tmp_zip))))))))))"

record installer_state =
  disk :: fs
  saved_install_path :: "string option" \<comment> \<open>the path in \<open>install_path.json\<close>\<close>
  shortcut_to :: "path option"
  launched :: "path option"

definition run ::
  "char \<Rightarrow> installer_env \<Rightarrow> path \<Rightarrow> bool \<Rightarrow> installer_state \<Rightarrow>
   exn option \<times> installer_state" where
  "run sep env install_dir create_shortcut st =
     (if install_dir = [] then (None, st)
      else (let st1 = st\<lparr>saved_install_path := Some install_dir\<rparr>
            in case run_files sep env install_dir (disk st1) of
                 (Some e, d) \<Rightarrow> (Some e, st1\<lparr>disk := d\<rparr>)
               | (None, d) \<Rightarrow>
                   (None, st1\<lparr>disk := d,
                              shortcut_to := (if create_shortcut
                                              then Some (path_join sep install_dir MODMANAGER_EXE_NAME)
                                              else shortcut_to st1),
                              launched := Some (path_join sep install_dir MODMANAGER_EXE_NAME)\<rparr>)))"

subsection \<open>The staged extraction of the earlier updater: \<open>unzip_to\<close>\<close>

text \<open>
  \<^verbatim>\<open>
  def unzip_to(zip_path, dest_folder, overwrite=True):
      with zipfile.ZipFile(zip_path, 'r') as z:
          if overwrite:
              tempdir = tempfile.mkdtemp()
              try:
                  z.extractall(tempdir)
                  for root, dirs, files in os.walk(tempdir):
                      rel = os.path.relpath(root, tempdir)
                      target_root = os.path.join(dest_folder, rel) if rel != '.' else dest_folder
                      os.makedirs(target_root, exist_ok=True)
                      for f in files:
                          src = os.path.join(root, f)
                          dst = os.path.join(target_root, f)
                          shutil.copy2(src, dst)
              finally:
                  shutil.rmtree(tempdir, ignore_errors=True)
          else:
              z.extractall(dest_folder)
  \<close>
  \<open>tempdir\<close> is a fresh directory that is removed at the end: its content is kept
  apart from the file system, as the list of the extracted files with their paths
  relative to \<open>tempdir\<close>.
\<close>

fun extractall :: "(string \<times> member_data) list \<Rightarrow> exn + (string \<times> bytes) list" where
  \<comment> \<open>the files of the archive, or the exception at the first member that fails\<close>
  "extractall [] = Inr []"
| "extractall ((member, data) # rest) =
     (if endswith member ''/'' then extractall rest
      else (case data of
              Intact b \<Rightarrow>
                (case extractall rest of Inl e \<Rightarrow> Inl e | Inr staged \<Rightarrow> Inr ((member, b) # staged))
            | _ \<Rightarrow> Inl (Exc ''BadZipFile'')))"

fun copy_staged :: "char \<Rightarrow> (string \<times> bytes) list \<Rightarrow> path \<Rightarrow> exn option io" where
  "copy_staged sep [] dest_folder s = (None, s)"
| "copy_staged sep ((rel, b) # rest) dest_folder s =
     (let dst = path_join_list sep dest_folder (split_on CHR ''/'' rel)
      in case os_makedirs (dirname sep dst) s of
           (Some e, s') \<Rightarrow> (Some e, s')
         | (None, s') \<Rightarrow>
             if dst \<in> locked s' \<or> dst \<in> dirs s' then (Some (Exc ''PermissionError''), s')
             else copy_staged sep rest dest_folder (write_file dst b s'))"

definition unzip_to :: "char \<Rightarrow> zip_file \<Rightarrow> path \<Rightarrow> exn option io" where
  \<comment> \<open>with \<open>overwrite=True\<close>, as every caller has it\<close>
  "unzip_to sep archive dest_folder s =
     (case archive of
        BadZipFile \<Rightarrow> (Some (Exc ''BadZipFile''), s)
      | Archive members \<Rightarrow>
          (case extractall members of
             Inl e \<Rightarrow> (Some e, s)
           | Inr staged \<Rightarrow> copy_staged sep staged dest_folder s))"

subsection \<open>Example installations\<close>

definition installed_fs :: fs where
  \<comment> \<open>an installation in \<open>/app\<close> with its updater and two resource files\<close>
  "installed_fs =
     \<lparr>files = [''/app/modmanager.exe'' \<mapsto> ''OLD-BINARY'',
               ''/app/update_new.exe'' \<mapsto> ''UPDATER'',
               ''/app/resources/a.txt'' \<mapsto> ''OLD-A'',
               ''/app/resources/b.txt'' \<mapsto> ''OLD-B''],
      dirs = {''/app'', ''/app/resources''},
      locked = {}\<rparr>"

definition dropped_net :: "string \<Rightarrow> get_result" where
  \<comment> \<open>every download is cut off after the bytes \<open>NEW-\<close> of ten announced\<close>
  "dropped_net url =
     Got \<lparr>content_length = Some ''10'', stream = [Data ''NEW-'', ReadRaises], status_code = 200\<rparr>"

definition no_zip :: "bytes \<Rightarrow> zip_file" where
  "no_zip b = BadZipFile"

definition dropped_env :: installer_env where
  "dropped_env = \<lparr>web = dropped_net, web_disk_free = 1000, unzip = no_zip, modmanager_holds = {}\<rparr>"

definition installed_state :: installer_state where
  "installed_state =
     \<lparr>disk = installed_fs, saved_install_path = Some ''/app'', shortcut_to = None, launched = None\<rparr>"

definition half_bad_archive :: zip_file where
  \<comment> \<open>an archive whose second member is damaged after two bytes\<close>
  "half_bad_archive = Archive [(''a.txt'', Intact ''NEW-A''), (''b.txt'', BadData ''NE'')]"

section \<open>ReplacementEngine: the updater of \<open>old_updater/1.1\<close>\<close>

subsection \<open>\<open>atomic_replace\<close>\<close>

definition shutil_copy2 :: "path \<Rightarrow> path \<Rightarrow> exn option io" where
  \<comment> \<open>\<open>shutil.copy2(src, dst)\<close> for a destination that names a file\<close>
  "shutil_copy2 src dst s =
     (case files s src of
        None \<Rightarrow> (Some (Exc ''FileNotFoundError''), s)
      | Some b \<Rightarrow>
          if src = dst then (Some (Exc ''SameFileError''), s)
          else if dst \<in> locked s \<or> dst \<in> dirs s then (Some (Exc ''PermissionError''), s)
          else (None, write_file dst b s))"

definition shutil_move :: "path \<Rightarrow> path \<Rightarrow> exn option io" where
  \<comment> \<open>\<open>shutil.move(src, dst)\<close> for files: \<open>os.rename\<close>, and on \<open>OSError\<close> a copy
      followed by \<open>os.unlink(src)\<close>\<close>
  "shutil_move src dst s =
     (case os_rename src dst s of
        (None, s') \<Rightarrow> (None, s')
      | (Some e, s') \<Rightarrow> io_then (shutil_copy2 src dst) (os_remove src) s')"

text \<open>
  \<^verbatim>\<open>
  def atomic_replace(src, dst):
      # Replace dst with src atomically (move)
      try:
          if os.path.exists(dst):
              os.remove(dst)
          shutil.move(src, dst)
          return True
      except Exception:
          try:
              shutil.copy2(src, dst)
              os.remove(src)
              return True
          except Exception:
              return False
  \<close>
\<close>

definition atomic_replace :: "path \<Rightarrow> path \<Rightarrow> bool io" where
  "atomic_replace src dst s =
     (case io_then (io_if (\<lambda>s. path_exists s dst) (os_remove dst)) (shutil_move src dst) s of
        (None, s1) \<Rightarrow> (True, s1)
      | (Some e, s1) \<Rightarrow>
          (case io_then (shutil_copy2 src dst) (os_remove src) s1 of
             (None, s2) \<Rightarrow> (True, s2)
           | (Some e', s2) \<Rightarrow> (False, s2)))"

subsection \<open>The deferred replacement of the installed updater\<close>

text \<open>
  \<open>_schedule_replace_and_exit(new_file_path, target_path)\<close> writes a script to a
  fresh temporary path, starts it detached and ends the process. On Windows the
  script is
  \<^verbatim>\<open>
  @echo off
  SETLOCAL ENABLEDELAYEDEXPANSION
  REM wait loop
  ping 127.0.0.1 -n 2 >nul
  :loop
  del "{target_path}" >nul 2>&1
  if exist "{target_path}" (
    timeout /t 1 /nobreak >nul
    goto loop
  )
  move /Y "{new_file_path}" "{target_path}" >nul 2>&1
  del "%~f0" >nul 2>&1
  \<close>
  The job records the three paths of the script; the script file holds its text.
\<close>

record replacement_job =
  new_file_path :: path
  target_path :: path
  script_path :: path

definition dq :: string where
  "dq = [CHR 0x22]"

definition nl :: string where
  "nl = [CHR 0x0A]"

definition bat_script :: "path \<Rightarrow> path \<Rightarrow> bytes" where
  "bat_script new_file target =
     ''@echo off'' @ nl @
     ''SETLOCAL ENABLEDELAYEDEXPANSION'' @ nl @
     ''REM wait loop'' @ nl @
     ''ping 127.0.0.1 -n 2 >nul'' @ nl @
     '':loop'' @ nl @
     ''del '' @ dq @ target @ dq @ '' >nul 2>&1'' @ nl @
     ''if exist '' @ dq @ target @ dq @ '' ('' @ nl @
     ''  timeout /t 1 /nobreak >nul'' @ nl @
     ''  goto loop'' @ nl @
     '')'' @ nl @
     ''move /Y '' @ dq @ new_file @ dq @ '' '' @ dq @ target @ dq @ '' >nul 2>&1'' @ nl @
     ''del '' @ dq @ ''%~f0'' @ dq @ '' >nul 2>&1'' @ nl"

definition schedule_replace_and_exit :: "path \<Rightarrow> path \<Rightarrow> path \<Rightarrow> replacement_job io" where
  \<comment> \<open>\<open>bat\<close> is the path \<open>tempfile.mktemp(suffix=".bat")\<close> returns\<close>
  "schedule_replace_and_exit bat new_file target s =
     (\<lparr>new_file_path = new_file, target_path = target, script_path = bat\<rparr>,
      write_file bat (bat_script new_file target) s)"

text \<open>
  The end of \<open>task_update_exe\<close>, after the new updater was downloaded to \<open>upd_tmp\<close>:
  \<^verbatim>\<open>
  installed_updater = os.path.join(install_root, EXPECTED_UPDATE_NAME)
  if os.path.exists(installed_updater):
      progress.emit("Replacing installed updater...")
      # write new file to installed_updater.new then schedule replacement
      tmp_up = installed_updater + ".new"
      shutil.copy2(upd_tmp, tmp_up)
      # Use batch/shell to move after exit
      self._schedule_replace_and_exit(tmp_up, installed_updater)
      # This will exit this process to let replacement happen
      return "Updater replacement scheduled; exiting to finish update."
  else:
      # just copy over
      shutil.copy2(upd_tmp, installed_updater)
  \<close>
\<close>

datatype replace_result = Committed | Deferred replacement_job | Failed exn

definition replace_installed_updater :: "path \<Rightarrow> path \<Rightarrow> path \<Rightarrow> replace_result io" where
  "replace_installed_updater bat upd_tmp installed_updater s =
     (if path_exists s installed_updater
      then (case shutil_copy2 upd_tmp (installed_updater @ ''.new'') s of
              (Some e, s1) \<Rightarrow> (Failed e, s1)
            | (None, s1) \<Rightarrow>
                (case schedule_replace_and_exit bat (installed_updater @ ''.new'')
                        installed_updater s1 of
                   (job, s2) \<Rightarrow> (Deferred job, s2)))
      else (case shutil_copy2 upd_tmp installed_updater s of
              (Some e, s1) \<Rightarrow> (Failed e, s1)
            | (None, s1) \<Rightarrow> (Committed, s1)))"

subsection \<open>The watcher script\<close>

text \<open>
  The script runs in a process of its own. Whether another process still holds
  the target open when the script polls for the \<open>i\<close>-th time is given by \<open>held i\<close>.
  The commands of the script fail silently.
\<close>

definition del_quiet :: "path \<Rightarrow> fs \<Rightarrow> fs" where
  \<comment> \<open>\<open>del "p" >nul 2>&1\<close>\<close>
  "del_quiet p s = snd (os_remove p s)"

definition move_quiet :: "path \<Rightarrow> path \<Rightarrow> fs \<Rightarrow> fs" where
  \<comment> \<open>\<open>move /Y "src" "dst" >nul 2>&1\<close>\<close>
  "move_quiet src dst s =
     (if files s src = None \<or> src = dst \<or> src \<in> locked s \<or> dst \<in> locked s \<or> dst \<in> dirs s
      then s
      else s\<lparr>files := (files s)(dst := files s src, src := None)\<rparr>)"

definition poll_locks :: "(nat \<Rightarrow> bool) \<Rightarrow> path \<Rightarrow> nat \<Rightarrow> fs \<Rightarrow> fs" where
  \<comment> \<open>the lock on the target as the \<open>i\<close>-th poll finds it\<close>
  "poll_locks held target i s =
     s\<lparr>locked := (if held i then insert target (locked s) else locked s - {target})\<rparr>"

partial_function (option) watcher_loop :: "(nat \<Rightarrow> bool) \<Rightarrow> path \<Rightarrow> nat \<Rightarrow> fs \<Rightarrow> fs option" where
  \<comment> \<open>\<open>:loop\<close> ... \<open>goto loop\<close>; no result when the loop never ends\<close>
  "watcher_loop held target i s =
     (let s' = del_quiet target (poll_locks held target i s)
      in if path_exists s' target then watcher_loop held target (Suc i) s' else Some s')"

definition run_watcher :: "(nat \<Rightarrow> bool) \<Rightarrow> replacement_job \<Rightarrow> fs \<Rightarrow> fs option" where
  "run_watcher held job s =
     (case watcher_loop held (target_path job) 0 s of
        None \<Rightarrow> None
      | Some s1 \<Rightarrow>
          Some (del_quiet (script_path job)
                  (move_quiet (new_file_path job) (target_path job) s1)))"

subsection \<open>Example replacements\<close>

definition locked_target_fs :: fs where
  \<comment> \<open>a downloaded binary and an installed one that a running process holds open\<close>
  "locked_target_fs =
     \<lparr>files = [''/tmp/dl/modmanager.exe'' \<mapsto> ''NEW-BINARY'', ''/app/modmanager.exe'' \<mapsto> ''OLD-BINARY''],
      dirs = {''/tmp/dl'', ''/app''},
      locked = {''/app/modmanager.exe''}\<rparr>"

definition updater_fs :: fs where
  \<comment> \<open>a downloaded updater and the installed one, which is the running process\<close>
  "updater_fs =
     \<lparr>files = [''/tmp/dl/update.exe'' \<mapsto> ''NEW-UPDATER'', ''/app/update.exe'' \<mapsto> ''OLD-UPDATER''],
      dirs = {''/tmp/dl'', ''/app''},
      locked = {''/app/update.exe''}\<rparr>"

definition held_for_two_polls :: "nat \<Rightarrow> bool" where
  "held_for_two_polls i = (i < 2)"

definition unlocked_target_fs :: fs where
  \<comment> \<open>the same files once the running process has exited\<close>
  "unlocked_target_fs = locked_target_fs\<lparr>locked := {}\<rparr>"

section \<open>Properties of the version comparator\<close>

subsection \<open>Strings\<close>



lemma dropWhile_id: "xs = [] \<or> \<not> P (hd xs) \<Longrightarrow> dropWhile P xs = xs"
  by (cases xs) auto

lemma py_strip_frame:
  assumes w1: "\<forall>c \<in> set ws1. py_isspace c" and w2: "\<forall>c \<in> set ws2. py_isspace c"
    and c: "core = [] \<or> (\<not> py_isspace (hd core) \<and> \<not> py_isspace (last core))"
  shows "py_strip (ws1 @ core @ ws2) = core"
proof (cases "core = []")
  case True
  then show ?thesis using w1 w2 by (auto simp: py_strip_def dest: set_dropWhileD)
next
  case False
  with c have h: "\<not> py_isspace (hd (core @ ws2))"
    and l: "\<not> py_isspace (hd (rev core @ rev ws1))"
    by (simp_all add: hd_rev)
  have "dropWhile py_isspace (ws1 @ (core @ ws2)) = dropWhile py_isspace (core @ ws2)"
    using w1 by (intro dropWhile_append2) simp
  also have "\<dots> = core @ ws2"
    using h by (intro dropWhile_id) simp
  finally have 1: "dropWhile py_isspace (ws1 @ core @ ws2) = core @ ws2" .
  have "dropWhile py_isspace (rev ws2 @ rev core) = dropWhile py_isspace (rev core)"
    using w2 by (intro dropWhile_append2) simp
  also have "\<dots> = rev core"
    using c False by (intro dropWhile_id) (simp add: hd_rev)
  finally have 2: "dropWhile py_isspace (rev ws2 @ rev core) = rev core" .
  show ?thesis unfolding py_strip_def 1 by (simp only: rev_append 2 rev_rev_ident)
qed

subsection \<open>Zero padding and trailing zeros\<close>

lemma lex_lt_irrefl: "\<not> lex_lt (<) (xs :: nat list) xs"
  by (induction xs) auto

lemma zeros_lt: "length w = n \<Longrightarrow> lex_lt (<) (replicate n (0::nat)) w = (w \<noteq> replicate n 0)"
  by (induction w arbitrary: n) auto

lemma lt_zeros: "length w = n \<Longrightarrow> \<not> lex_lt (<) w (replicate n (0::nat))"
  by (induction w arbitrary: n) (auto split: if_splits)

lemma no_trailing_zero_tl: "no_trailing_zero (x # xs) \<Longrightarrow> no_trailing_zero xs"
  by (auto simp: no_trailing_zero_def split: if_splits)

lemma no_trailing_zero_pad: "no_trailing_zero v \<Longrightarrow> v \<noteq> [] \<Longrightarrow> v @ replicate k 0 \<noteq> replicate n 0"
proof
  assume a: "no_trailing_zero v" "v \<noteq> []" "v @ replicate k 0 = replicate n 0"
  then have "last v \<in> set (replicate n (0::nat))"
    by (metis last_in_set Un_iff set_append)
  with a show False by (auto simp: no_trailing_zero_def)
qed

lemma lex_lt_pad:
  "no_trailing_zero u \<Longrightarrow> no_trailing_zero v \<Longrightarrow> length u \<le> n \<Longrightarrow> length v \<le> n \<Longrightarrow>
   lex_lt (<) (u @ replicate (n - length u) 0) (v @ replicate (n - length v) 0) = lex_lt (<) u v"
proof (induction u arbitrary: v n)
  case Nil
  show ?case
  proof (cases v)
    case Nil
    then show ?thesis by (simp add: lex_lt_irrefl)
  next
    case (Cons y ys)
    have "v @ replicate (n - length v) 0 \<noteq> replicate n 0"
      using Nil.prems(2) Cons by (intro no_trailing_zero_pad) auto
    moreover have "length (v @ replicate (n - length v) 0) = n"
      using Nil.prems(4) by simp
    ultimately show ?thesis using Cons by (simp add: zeros_lt del: replicate_eq_replicate append_eq_append_conv)
  qed
next
  case (Cons x xs)
  show ?case
  proof (cases v)
    case Nil
    have "length ((x # xs) @ replicate (n - length (x # xs)) 0) = n"
      using Cons.prems(3) by simp
    from lt_zeros [OF this] show ?thesis using Nil by simp
  next
    case c: (Cons y ys)
    obtain m where n: "n = Suc m" using Cons.prems(3) by (cases n) auto
    have "lex_lt (<) (xs @ replicate (m - length xs) 0) (ys @ replicate (m - length ys) 0)
          = lex_lt (<) xs ys"
      using Cons.prems c n by (intro Cons.IH) (auto dest: no_trailing_zero_tl)
    then show ?thesis using c n by simp
  qed
qed

lemma strip_zeros_decomp:
  "\<exists>k. xs = strip_zeros xs @ replicate k 0 \<and> no_trailing_zero (strip_zeros xs)"
proof -
  let ?Z = "\<lambda>n::nat. n = 0"
  have "rev xs = takeWhile ?Z (rev xs) @ dropWhile ?Z (rev xs)" by simp
  then have "xs = rev (dropWhile ?Z (rev xs)) @ rev (takeWhile ?Z (rev xs))"
    by (metis rev_append rev_rev_ident)
  moreover have "rev (takeWhile ?Z (rev xs)) = replicate (length (takeWhile ?Z (rev xs))) 0"
    by (metis (mono_tags, lifting) length_rev replicate_length_same set_rev set_takeWhileD)
  moreover have "no_trailing_zero (strip_zeros xs)"
    unfolding no_trailing_zero_def strip_zeros_def
    by (metis (mono_tags, lifting) hd_dropWhile last_rev rev_is_Nil_conv)
  ultimately show ?thesis unfolding strip_zeros_def by metis
qed

lemma strip_zeros_padded:
  "lex_lt (<) (strip_zeros xs) (strip_zeros ys) = padded_lt xs ys"
proof -
  obtain k where x: "xs = strip_zeros xs @ replicate k 0" and nx: "no_trailing_zero (strip_zeros xs)"
    using strip_zeros_decomp by blast
  obtain m where y: "ys = strip_zeros ys @ replicate m 0" and ny: "no_trailing_zero (strip_zeros ys)"
    using strip_zeros_decomp by blast
  define u where "u = strip_zeros xs"
  define v where "v = strip_zeros ys"
  define n where "n = max (length xs) (length ys)"
  have lx: "length xs = length u + k" and ly: "length ys = length v + m"
    using x y unfolding u_def v_def by (metis length_append length_replicate)+
  have px: "zero_pad n xs = u @ replicate (n - length u) 0"
  proof -
    have "zero_pad n xs = (u @ replicate k 0) @ replicate (n - length xs) 0"
      unfolding zero_pad_def using x u_def by simp
    also have "\<dots> = u @ replicate (k + (n - length xs)) 0"
      by (simp add: replicate_add)
    also have "k + (n - length xs) = n - length u"
      using lx unfolding n_def by simp
    finally show ?thesis .
  qed
  have py: "zero_pad n ys = v @ replicate (n - length v) 0"
  proof -
    have "zero_pad n ys = (v @ replicate m 0) @ replicate (n - length ys) 0"
      unfolding zero_pad_def using y v_def by simp
    also have "\<dots> = v @ replicate (m + (n - length ys)) 0"
      by (simp add: replicate_add)
    also have "m + (n - length ys) = n - length v"
      using ly unfolding n_def by simp
    finally show ?thesis .
  qed
  have "lex_lt (<) (zero_pad n xs) (zero_pad n ys) = lex_lt (<) u v"
    unfolding px py using nx ny lx ly unfolding u_def [symmetric] v_def [symmetric] n_def
    by (intro lex_lt_pad) auto
  then show ?thesis unfolding padded_lt_def Let_def n_def u_def v_def by simp
qed

subsection \<open>The library's parser on numeric versions\<close>

lemma join_dots_Cons: "join_dots (g # gs) = g @ dots_tail gs"
  by (induction gs arbitrary: g) (simp_all add: dots_tail_def)

lemma dot_not_digit: "\<not> is_ascii_digit CHR ''.''"
  by (simp add: is_ascii_digit_def)

lemma digit_facts:
  "is_ascii_digit c \<Longrightarrow> \<not> py_isspace c \<and> ascii_lower c \<noteq> CHR ''v''"
  by (auto simp: is_ascii_digit_def py_isspace_def ascii_lower_def Let_def)

lemma no_digit_head_dots: "dots_tail gs = [] \<or> \<not> is_ascii_digit (hd (dots_tail gs))"
  by (cases gs) (simp_all add: dots_tail_def dot_not_digit)

lemma span_digits:
  assumes "list_all is_ascii_digit g" and "r = [] \<or> \<not> is_ascii_digit (hd r)"
  shows "takeWhile is_ascii_digit (g @ r) = g" and "dropWhile is_ascii_digit (g @ r) = r"
proof -
  have g: "\<forall>c \<in> set g. is_ascii_digit c" using assms(1) by (simp add: list_all_iff)
  have r: "takeWhile is_ascii_digit r = []" "dropWhile is_ascii_digit r = r"
    using assms(2) by (cases r; simp)+
  show "takeWhile is_ascii_digit (g @ r) = g" using g r by (simp add: takeWhile_append2)
  show "dropWhile is_ascii_digit (g @ r) = r" using g r by (simp add: dropWhile_append2)
qed

lemma release_tail_dots:
  "list_all (\<lambda>g. g \<noteq> [] \<and> list_all is_ascii_digit g) gs \<Longrightarrow>
   release_tail (dots_tail gs) = (map dec_val gs, [])"
proof (induction gs)
  case Nil
  then show ?case by (simp add: dots_tail_def release_tail.simps)
next
  case (Cons g gs)
  then have g: "g \<noteq> []" "list_all is_ascii_digit g" by simp_all
  have d: "dots_tail (g # gs) = CHR ''.'' # (g @ dots_tail gs)"
    by (simp add: dots_tail_def)
  note sp = span_digits [OF g(2) no_digit_head_dots [of gs]]
  show ?case
    unfolding d using Cons g sp
    by (subst release_tail.simps) simp
qed

lemma parse_version_numeric:
  assumes "numeric_version gs"
  shows "parse_version (join_dots gs) =
         Some \<lparr>epoch = 0, release = map dec_val gs, pre = None, post = None, dev = None,
                local_ver = None\<rparr>"
proof -
  from assms obtain g gs' where gs: "gs = g # gs'" and g: "g \<noteq> []" "list_all is_ascii_digit g"
    and rest: "list_all (\<lambda>g. g \<noteq> [] \<and> list_all is_ascii_digit g) gs'"
    by (cases gs) (auto simp: numeric_version_def)
  define s where "s = join_dots gs"
  have s: "s = g @ dots_tail gs'" unfolding s_def gs by (rule join_dots_Cons)
  obtain c cs where c: "g = c # cs" "is_ascii_digit c" using g by (cases g) auto
  note sp = span_digits [OF g(2) no_digit_head_dots [of gs']]
  have 1: "dropWhile py_isspace s = s"
    using c digit_facts [of c] by (simp add: s)
  have 2: "match_lit ''v'' s = None"
    using c digit_facts [of c] by (simp add: s match_lit_def)
  have nb: "take 1 (dots_tail gs') \<noteq> ''!''"
    by (cases gs') (simp_all add: dots_tail_def)
  have 3: "parse_epoch s = (0, s)"
    using sp nb g by (simp add: parse_epoch_def s Let_def)
  have 4: "parse_release s = Some (map dec_val gs, [])"
    using sp g release_tail_dots [OF rest] by (simp add: parse_release_def s gs Let_def)
  have 5: "parse_pre [] = (None, [])" "parse_post [] = (None, [])" "parse_dev [] = (None, [])"
    "parse_local [] = (None, [])"
    by (simp_all add: parse_pre_def parse_post_def parse_dev_def parse_local_def
        letter_number_def opt_sep_def match_lit_def)
  show ?thesis
    unfolding s_def [symmetric] parse_version_def
    by (simp add: 1 2 3 4 5 Let_def)
qed

lemma cmpkey_numeric:
  "cmpkey \<lparr>epoch = 0, release = ns, pre = None, post = None, dev = None, local_ver = None\<rparr>
   = (0, strip_zeros ns, PosInf, NegInf, PosInf, NegInf)"
  by (simp add: cmpkey_def)

lemma newer_numeric_padded:
  assumes "numeric_version a" and "numeric_version b"
  shows "is_version_newer (Some (join_dots a)) (Some (join_dots b))
         = padded_lt (map dec_val a) (map dec_val b)"
proof -
  have "is_version_newer (Some (join_dots a)) (Some (join_dots b))
        = lex_lt (<) (strip_zeros (map dec_val a)) (strip_zeros (map dec_val b))"
    by (simp add: is_version_newer_def pkg_parse_def parse_version_numeric [OF assms(1)]
        parse_version_numeric [OF assms(2)] cmpkey_numeric lex_lt_irrefl)
  then show ?thesis by (simp only: strip_zeros_padded)
qed

subsection \<open>The numeric components of a string\<close>

lemma split_on_nonempty: "split_on sep s \<noteq> []"
  by (induction s) (auto split: list.splits)

lemma split_on_no_sep: "sep \<notin> set g \<Longrightarrow> split_on sep g = [g]"
  by (induction g) auto

lemma split_on_prefix: "sep \<notin> set g \<Longrightarrow> split_on sep (g @ sep # r) = g # split_on sep r"
  by (induction g) auto

lemma split_join_dots:
  "dot_free_components cs \<Longrightarrow> split_on CHR ''.'' (join_dots cs) = cs"
proof (induction cs rule: join_dots.induct)
  case 1
  then show ?case by (simp add: dot_free_components_def)
next
  case (2 g)
  then show ?case by (simp add: dot_free_components_def split_on_no_sep)
next
  case (3 g h gs)
  then have "dot_free_components (h # gs)" and "CHR ''.'' \<notin> set g"
    by (simp_all add: dot_free_components_def)
  with "3.IH" show ?case by (simp add: split_on_prefix)
qed

lemma all_digit_isdigit: "all_digit c \<Longrightarrow> py_isdigit c"
  by (auto simp: all_digit_def py_isdigit_def is_ascii_digit_def py_isdigit_char_def Let_def
      list_all_iff)

lemma filter_isdigit:
  "\<not> list_ex int_rejects cs \<Longrightarrow> filter py_isdigit cs = filter all_digit cs"
  by (induction cs) (auto simp: int_rejects_def all_digit_isdigit)

lemma ints_of_all_digit: "list_all all_digit xs \<Longrightarrow> ints_of xs = Inr (map dec_val xs)"
  by (induction xs) (auto simp: py_int_def all_digit_def)

lemma ints_of_rejects:
  "list_ex (\<lambda>c. \<not> all_digit c) xs \<Longrightarrow> ints_of xs = Inl ValueError"
  by (induction xs) (auto simp: py_int_def all_digit_def split: sum.splits)

lemma naive_parts_components:
  assumes "dot_free_components cs" and "\<not> list_ex int_rejects cs"
  shows "naive_parts (Some (join_dots cs)) = Inr (numeric_components cs)"
proof -
  have "list_all all_digit (filter all_digit cs)" by (simp add: list_all_iff)
  then show ?thesis
    using assms
    by (simp add: naive_parts_def split_join_dots filter_isdigit ints_of_all_digit
        numeric_components_def)
qed

lemma naive_parts_rejects:
  assumes "dot_free_components cs" and "list_ex int_rejects cs"
  shows "naive_parts (Some (join_dots cs)) = Inl ValueError"
proof -
  from assms(2) have "list_ex (\<lambda>c. \<not> all_digit c) (filter py_isdigit cs)"
    by (auto simp: list_ex_iff int_rejects_def)
  then show ?thesis
    using assms(1) by (simp add: naive_parts_def split_join_dots ints_of_rejects)
qed

lemma fallback_general:
  assumes "isl (pkg_parse installed) \<or> isl (pkg_parse latest)"
  shows "is_version_newer installed latest
      = (case naive_parts installed of
           Inl e \<Rightarrow> latest \<noteq> installed \<and> latest \<noteq> None
         | Inr i_parts \<Rightarrow>
             (case naive_parts latest of
                Inl e \<Rightarrow> latest \<noteq> installed \<and> latest \<noteq> None
              | Inr l_parts \<Rightarrow> lex_lt (<) i_parts l_parts))"
  using assms unfolding is_version_newer_def
  by (cases "pkg_parse installed"; cases "pkg_parse latest") simp_all

lemma invalid_1_2_x: "pkg_parse (Some ''1.2.x'') = Inl InvalidVersion"
  by code_simp

lemma invalid_empty: "pkg_parse (Some '''') = Inl InvalidVersion"
  by code_simp

subsection \<open>Claims about \<open>semver_normalize\<close>, \<open>is_version_newer\<close> and the toggle\<close>

text \<open>
  Claim C8, as stated, says that an empty tag is returned unchanged. The guard
  \<open>if not tag: return None\<close> returns \<open>None\<close> for the empty string, which is not the
  empty string.
\<close>

theorem semver_normalize_empty_counterexample:
  "semver_normalize (Some '''') \<noteq> Some ''''"
  by (simp add: semver_normalize_def)

text \<open>
  Claim C8, amended: \<open>semver_normalize\<close> returns \<open>None\<close> for an absent and for an empty
  tag. For any other tag it strips the surrounding whitespace and then exactly one
  leading \<open>v\<close> or \<open>V\<close>: a tag made of whitespace \<open>ws1\<close>, a core that neither starts
  nor ends with whitespace, and whitespace \<open>ws2\<close> yields the core without its first
  character when that is \<open>v\<close> or \<open>V\<close>, and the core itself otherwise. In particular
  \<open>v1.2.3\<close> and \<open>1.2.3\<close> both yield \<open>1.2.3\<close>.
\<close>

theorem semver_normalize_amended:
  "semver_normalize None = None
   \<and> semver_normalize (Some '''') = None
   \<and> semver_normalize (Some ''v1.2.3'') = Some ''1.2.3''
   \<and> semver_normalize (Some ''1.2.3'') = Some ''1.2.3''
   \<and> ((\<forall>c \<in> set ws1. py_isspace c) \<and> (\<forall>c \<in> set ws2. py_isspace c)
        \<and> (core = [] \<or> (\<not> py_isspace (hd core) \<and> \<not> py_isspace (last core)))
        \<and> ws1 @ core @ ws2 \<noteq> []
      \<longrightarrow> semver_normalize (Some (ws1 @ core @ ws2))
          = Some (if startswith core ''v'' \<or> startswith core ''V'' then drop 1 core else core))"
proof (intro conjI impI)
  show "semver_normalize None = None"
    by (simp add: semver_normalize_def)
  show "semver_normalize (Some '''') = None"
    by (simp add: semver_normalize_def)
  show "semver_normalize (Some ''v1.2.3'') = Some ''1.2.3''"
    by (simp add: semver_normalize_def py_strip_def py_isspace_def startswith_def)
  show "semver_normalize (Some ''1.2.3'') = Some ''1.2.3''"
    by (simp add: semver_normalize_def py_strip_def py_isspace_def startswith_def)
next
  assume h: "(\<forall>c \<in> set ws1. py_isspace c) \<and> (\<forall>c \<in> set ws2. py_isspace c)
        \<and> (core = [] \<or> (\<not> py_isspace (hd core) \<and> \<not> py_isspace (last core)))
        \<and> ws1 @ core @ ws2 \<noteq> []"
  then have "py_strip (ws1 @ core @ ws2) = core"
    by (intro py_strip_frame) simp_all
  with h show "semver_normalize (Some (ws1 @ core @ ws2))
          = Some (if startswith core ''v'' \<or> startswith core ''V'' then drop 1 core else core)"
    unfolding semver_normalize_def by (simp add: Let_def)
qed

theorem semver_normalize_amended_witness:
  "py_isspace CHR '' ''
   \<and> \<not> py_isspace (hd ''V2.0'') \<and> \<not> py_isspace (last ''V2.0'')
   \<and> semver_normalize (Some ('' '' @ ''V2.0'' @ '' '')) = Some ''2.0''"
  using semver_normalize_amended [of "'' ''" "'' ''" "''V2.0''"]
  by (simp add: py_isspace_def startswith_def)

text \<open>
  Claim C3: on numeric versions \<open>is_version_newer\<close> compares the numeric components
  in order, the shorter sequence padded with zeros on the right; the candidate
  \<open>1.0.10\<close> is newer than \<open>1.0.9\<close>, \<open>1.0.9\<close> is not newer than \<open>1.0.10\<close>, and \<open>1.2.0\<close>
  is not newer than \<open>1.2\<close>.
\<close>

theorem is_version_newer_numeric:
  "(numeric_version a \<and> numeric_version b \<longrightarrow>
      is_version_newer (Some (join_dots a)) (Some (join_dots b))
      = padded_lt (map dec_val a) (map dec_val b))
   \<and> is_version_newer (Some ''1.0.9'') (Some ''1.0.10'')
   \<and> \<not> is_version_newer (Some ''1.0.10'') (Some ''1.0.9'')
   \<and> \<not> is_version_newer (Some ''1.2'') (Some ''1.2.0'')"
proof (intro conjI impI)
  assume "numeric_version a \<and> numeric_version b"
  then show "is_version_newer (Some (join_dots a)) (Some (join_dots b))
      = padded_lt (map dec_val a) (map dec_val b)"
    by (intro newer_numeric_padded) simp_all
next
  show "is_version_newer (Some ''1.0.9'') (Some ''1.0.10'')"
    by code_simp
  show "\<not> is_version_newer (Some ''1.0.10'') (Some ''1.0.9'')"
    by code_simp
  show "\<not> is_version_newer (Some ''1.2'') (Some ''1.2.0'')"
    by code_simp
qed

theorem is_version_newer_numeric_witness:
  "numeric_version [''2'', ''5''] \<and> numeric_version [''2'', ''10'', ''0'']
   \<and> is_version_newer (Some ''2.5'') (Some ''2.10.0'')
   \<and> padded_lt [2, 5] [2, 10, 0]"
proof -
  have h: "numeric_version [''2'', ''5''] \<and> numeric_version [''2'', ''10'', ''0'']"
    by (simp add: numeric_version_def is_ascii_digit_def)
  have p: "padded_lt [2, 5] [2, 10, 0]"
    by (simp add: padded_lt_def zero_pad_def)
  have d: "dec_val ''2'' = 2" "dec_val ''5'' = 5" "dec_val ''10'' = 10" "dec_val ''0'' = 0"
    by (simp_all add: dec_val_def)
  from is_version_newer_numeric [of "[''2'', ''5'']" "[''2'', ''10'', ''0'']"] h
  have "is_version_newer (Some (join_dots [''2'', ''5''])) (Some (join_dots [''2'', ''10'', ''0'']))
        = padded_lt (map dec_val [''2'', ''5'']) (map dec_val [''2'', ''10'', ''0''])"
    by blast
  then have "is_version_newer (Some ''2.5'') (Some ''2.10.0'')"
    using p by (simp add: d)
  with h p show ?thesis by blast
qed

text \<open>
  Claim C4, as stated, says that a pair on which parsing fails is reported newer
  exactly when the candidate is non-empty and differs from the installed string.
  The library rejects both \<open>abc\<close> and \<open>xyz\<close>, the candidate \<open>xyz\<close> is non-empty and
  differs from \<open>abc\<close>, and the result is false: the inner \<open>try\<close> compares the lists
  of numeric components, which are both empty.
\<close>

theorem is_version_newer_fallback_counterexample:
  "pkg_parse (Some ''abc'') = Inl InvalidVersion
   \<and> pkg_parse (Some ''xyz'') = Inl InvalidVersion
   \<and> ''xyz'' \<noteq> '''' \<and> ''xyz'' \<noteq> ''abc''
   \<and> \<not> is_version_newer (Some ''abc'') (Some ''xyz'')"
  by code_simp

text \<open>
  Claim C4, amended: when the library's parse fails for either side,
  \<open>is_version_newer\<close> compares the lists of the numeric components of the two
  strings, the values of their all-digit dot-separated components with the other
  components dropped, in Python's list order and without padding, candidate above
  installed. It returns "candidate differs from installed and candidate is not
  None" only when building those lists raises: when a component is one that
  \<open>isdigit\<close> accepts and \<open>int\<close> rejects, or when either operand is \<open>None\<close>.
\<close>

theorem is_version_newer_fallback:
  "(dot_free_components a \<and> dot_free_components b
      \<and> (isl (pkg_parse (Some (join_dots a))) \<or> isl (pkg_parse (Some (join_dots b))))
      \<and> \<not> list_ex int_rejects (a @ b)
      \<longrightarrow> is_version_newer (Some (join_dots a)) (Some (join_dots b))
          = lex_lt (<) (numeric_components a) (numeric_components b))
   \<and> (dot_free_components c \<and> dot_free_components d
      \<and> (isl (pkg_parse (Some (join_dots c))) \<or> isl (pkg_parse (Some (join_dots d))))
      \<and> list_ex int_rejects (c @ d)
      \<longrightarrow> is_version_newer (Some (join_dots c)) (Some (join_dots d))
          = (join_dots d \<noteq> join_dots c))
   \<and> (installed = None \<or> latest = None \<longrightarrow>
        is_version_newer installed latest = (latest \<noteq> installed \<and> latest \<noteq> None))"
proof (intro conjI impI)
  assume h: "dot_free_components a \<and> dot_free_components b
      \<and> (isl (pkg_parse (Some (join_dots a))) \<or> isl (pkg_parse (Some (join_dots b))))
      \<and> \<not> list_ex int_rejects (a @ b)"
  then have "naive_parts (Some (join_dots a)) = Inr (numeric_components a)"
    and "naive_parts (Some (join_dots b)) = Inr (numeric_components b)"
    by (simp_all add: naive_parts_components)
  with h show "is_version_newer (Some (join_dots a)) (Some (join_dots b))
          = lex_lt (<) (numeric_components a) (numeric_components b)"
    by (simp add: fallback_general)
next
  assume h: "dot_free_components c \<and> dot_free_components d
      \<and> (isl (pkg_parse (Some (join_dots c))) \<or> isl (pkg_parse (Some (join_dots d))))
      \<and> list_ex int_rejects (c @ d)"
  then have "naive_parts (Some (join_dots c)) = Inl ValueError
             \<or> naive_parts (Some (join_dots d)) = Inl ValueError"
    by (auto simp: naive_parts_rejects)
  with h show "is_version_newer (Some (join_dots c)) (Some (join_dots d))
          = (join_dots d \<noteq> join_dots c)"
    by (auto simp: fallback_general split: sum.splits)
next
  assume "installed = None \<or> latest = None"
  then show "is_version_newer installed latest = (latest \<noteq> installed \<and> latest \<noteq> None)"
    unfolding is_version_newer_def
    by (auto simp: pkg_parse_def naive_parts_def split: sum.splits option.splits)
qed

theorem is_version_newer_fallback_witness:
  "isl (pkg_parse (Some ''1.2.x''))
   \<and> numeric_components [''1'', ''2'', ''x''] = [1, 2]
   \<and> numeric_components [''1'', ''2'', ''0'', ''x''] = [1, 2, 0]
   \<and> is_version_newer (Some ''1.2.x'') (Some ''1.2.0.x'')
   \<and> int_rejects [CHR 0xB2]
   \<and> is_version_newer (Some [CHR 0xB2]) (Some '''')
   \<and> is_version_newer None (Some ''1.0'')"
proof -
  note t = is_version_newer_fallback [where a = "[''1'', ''2'', ''x'']"
      and b = "[''1'', ''2'', ''0'', ''x'']" and c = "[[CHR 0xB2]]" and d = "[[]]"
      and installed = None and latest = "Some ''1.0''"]
  have d: "dec_val ''1'' = 1" "dec_val ''2'' = 2" "dec_val ''0'' = 0"
    by (simp_all add: dec_val_def)
  have n: "numeric_components [''1'', ''2'', ''x''] = [1, 2]"
    "numeric_components [''1'', ''2'', ''0'', ''x''] = [1, 2, 0]"
    by (simp_all add: numeric_components_def all_digit_def is_ascii_digit_def d)
  have r: "int_rejects [CHR 0xB2]" "\<not> int_rejects ''1''" "\<not> int_rejects ''2''"
    "\<not> int_rejects ''0''" "\<not> int_rejects ''x''" "\<not> int_rejects []"
    by (simp_all add: int_rejects_def py_isdigit_def py_isdigit_char_def all_digit_def
        is_ascii_digit_def)
  have f: "dot_free_components [''1'', ''2'', ''x'']"
    "dot_free_components [''1'', ''2'', ''0'', ''x'']"
    "dot_free_components [[CHR 0xB2]]" "dot_free_components [[]]"
    by (simp_all add: dot_free_components_def)
  from t f r n invalid_1_2_x invalid_empty show ?thesis by simp
qed



section \<open>Properties of the check workflow and of the downloader\<close>

subsection \<open>The check workflow\<close>

lemma newer_1_0_10: "is_version_newer (Some ''1.0.9'') (Some ''1.0.10'')"
  by code_simp

text \<open>
  A release tagged \<open>v1.0.10\<close> seen by an installation at \<open>1.0.9\<close>: the tag is stored
  and saved and the status reports the update.
\<close>

lemma check_update_available_example:
  "check_updates_and_update_ui (Reply (JObj [(''tag_name'', JStr ''v1.0.10'')])) example_state
   = (Returned (),
      example_state\<lparr>settings := (settings example_state)(''last_release_tag'' \<mapsto> JStr ''v1.0.10''),
                    settings_file := Some ((settings example_state)(''last_release_tag'' \<mapsto> JStr ''v1.0.10'')),
                    update_status := Some (True, ''Update available (v1.0.10)'')\<rparr>)"
  by (simp add: check_updates_and_update_ui_def example_state_def dict_get_def py_or_def
      semver_normalize_json_def semver_normalize_def py_strip_def py_isspace_def startswith_def
      SCRIPT_VERSION_def save_settings_def set_update_status_def str_truthy_def tag_text_def
      newer_1_0_10 Let_def)

text \<open>
  Claim C5: when the fetch of the release metadata fails (a transport error, a
  timeout, a status outside 2xx, or a body that is not JSON), the check workflow
  ends with the status "Unable to check", and the settings in memory and on disk,
  with the last release tag, the version and the install path, are what they were
  before.
\<close>

theorem check_fetch_failure_keeps_settings:
  "reply \<in> {TransportError, Timeout, HTTPStatusError code, MalformedJSON} \<longrightarrow>
     check_updates_and_update_ui reply st
       = (Returned (), st\<lparr>update_status := Some (False, ''Unable to check'')\<rparr>)
     \<and> settings (snd (check_updates_and_update_ui reply st)) = settings st
     \<and> settings_file (snd (check_updates_and_update_ui reply st)) = settings_file st"
  by (auto simp: check_updates_and_update_ui_def set_update_status_def)

theorem check_fetch_failure_keeps_settings_witness:
  "check_updates_and_update_ui Timeout example_state
     = (Returned (), example_state\<lparr>update_status := Some (False, ''Unable to check'')\<rparr>)
   \<and> settings (snd (check_updates_and_update_ui Timeout example_state)) ''last_release_tag''
     = Some (JStr ''v1.0.8'')
   \<and> settings_file (snd (check_updates_and_update_ui Timeout example_state))
     = settings_file example_state"
  using check_fetch_failure_keeps_settings [of Timeout 0 example_state]
  by (simp add: example_state_def)

subsection \<open>The download loop\<close>

lemma download_loop_step:
  assumes "chunk \<noteq> []" and "\<not> space < length chunk"
  shows "(\<exists>c2. download_loop (Data chunk # st) cb tot space w d calls
               = download_loop st cb tot (space - length chunk) (w @ chunk) (d + length chunk) c2)
         \<or> (\<exists>n f. cb = Some f \<and> f (d + length chunk) tot = CbRaises (BaseExc n)
               \<and> download_loop (Data chunk # st) cb tot space w d calls
                 = (Raised (BaseExc n), w @ chunk, d + length chunk, calls))"
  using assms by (auto simp: Let_def split: option.splits cb_result.splits exn.splits)


lemma download_loop_StreamEnd:
  "download_loop st cb tot space w d calls = (StreamEnd, w', d', calls') \<Longrightarrow>
   w' = w @ received st \<and> d' = d + length (received st)"
proof (induction st arbitrary: space w d calls)
  case Nil
  then show ?case by simp
next
  case (Cons r st)
  show ?case
  proof (cases r)
    case ReadRaises
    with Cons.prems show ?thesis by simp
  next
    case (Data chunk)
    show ?thesis
    proof (cases "chunk = [] \<or> space < length chunk")
      case True
      with Cons.prems Data show ?thesis by (auto split: if_splits)
    next
      case False
      then have c: "chunk \<noteq> []" "\<not> space < length chunk" by auto
      from download_loop_step [OF c, of st cb tot w d calls] Cons.prems Data
      obtain c2 where "download_loop st cb tot (space - length chunk) (w @ chunk)
                         (d + length chunk) c2 = (StreamEnd, w', d', calls')"
        by auto
      from Cons.IH [OF this] c Data show ?thesis by simp
    qed
  qed
qed



subsection \<open>\<open>download_url_to_path\<close>\<close>




text \<open>
  Claim C7, as stated, says that a successful download with a known content length
  \<open>N\<close> leaves a file of exactly \<open>N\<close> bytes. A server that announces ten bytes and
  closes the connection after four gives a successful download of four bytes: the
  loop ends at the first empty read and the counter is never compared with the
  header.
\<close>

theorem download_size_counterexample:
  "header_total (Some ''10'') = Inr (Some 10)
   \<and> fst (download_url_to_path CHR ''/'' short_body_env ''http://host/update.exe''
             ''/app/update_new.exe'' None empty_fs) = Returned True
   \<and> files (fst (snd (download_url_to_path CHR ''/'' short_body_env ''http://host/update.exe''
             ''/app/update_new.exe'' None empty_fs))) ''/app/update_new.exe'' = Some ''abcd''
   \<and> length ''abcd'' \<noteq> (10::nat)"
  by (simp add: download_url_to_path_def os_makedirs_def short_body_env_def short_body_net_def empty_fs_def
      header_total_def py_isdigit_def py_isdigit_char_def py_int_def is_ascii_digit_def dec_val_def
      dirname_def write_file_def Let_def)

text \<open>
  Claim C7, amended: after every download that returns successfully, the file at
  the destination holds exactly the bytes the response stream delivered before it
  ended, in order, so its size is their number; the size is not compared with the
  content length.
\<close>

theorem download_success_content:
  assumes "download_url_to_path sep env url dest cb s = (Returned True, s', calls)"
  shows "\<exists>resp. net env url = Response resp \<and> files s' dest = Some (received (stream resp))"
proof (cases "net env url")
  case UrlopenRaises
  with assms show ?thesis by (simp add: download_url_to_path_def os_makedirs_def)
next
  case (Response resp)
  show ?thesis
  proof (cases "header_total (content_length resp)")
    case (Inl e)
    with assms Response show ?thesis by (simp add: download_url_to_path_def os_makedirs_def)
  next
    case (Inr tot)
    define s1 where "s1 = s\<lparr>dirs := insert (dirname sep dest) (dirs s)\<rparr>"
    obtain e w d c where loop:
      "download_loop (stream resp) cb tot (disk_free env) [] 0 [] = (e, w, d, c)"
      by (metis prod_cases4)
    from assms Response Inr loop have "e = StreamEnd \<and> s' = write_file dest w s1"
      unfolding download_url_to_path_def os_makedirs_def s1_def
      by (auto simp: Let_def split: if_splits loop_end.splits exn.splits)
    moreover from this loop have "w = [] @ received (stream resp)"
      using download_loop_StreamEnd by blast
    ultimately show ?thesis using Response by (simp add: write_file_def)
  qed
qed

theorem download_success_content_witness:
  "fst (download_url_to_path CHR ''/'' short_body_env ''http://host/update.exe''
          ''/app/update_new.exe'' None empty_fs) = Returned True
   \<and> files (fst (snd (download_url_to_path CHR ''/'' short_body_env ''http://host/update.exe''
          ''/app/update_new.exe'' None empty_fs))) ''/app/update_new.exe'' = Some ''abcd''"
proof -
  let ?r = "download_url_to_path CHR ''/'' short_body_env ''http://host/update.exe''
              ''/app/update_new.exe'' None empty_fs"
  have ok: "fst ?r = Returned True"
    by (simp add: download_url_to_path_def os_makedirs_def short_body_env_def short_body_net_def empty_fs_def
        header_total_def py_isdigit_def py_isdigit_char_def py_int_def is_ascii_digit_def
        dec_val_def dirname_def write_file_def Let_def)
  then have "?r = (Returned True, fst (snd ?r), snd (snd ?r))"
    by (metis prod.collapse)
  from download_success_content [OF this]
  obtain resp where "net short_body_env ''http://host/update.exe'' = Response resp"
    and "files (fst (snd ?r)) ''/app/update_new.exe'' = Some (received (stream resp))"
    by blast
  then have "files (fst (snd ?r)) ''/app/update_new.exe'' = Some ''abcd''"
    by (auto simp: short_body_env_def short_body_net_def)
  with ok show ?thesis by simp
qed




section \<open>Properties of the installer\<close>

lemma install_paths:
  "path_join CHR ''/'' ''/app'' MODMANAGER_EXE_NAME = ''/app/modmanager.exe''"
  "path_join CHR ''/'' ''/app'' resources_folder_name = ''/app/resources''"
  "path_join CHR ''/'' ''/app'' ''update_new.exe'' = ''/app/update_new.exe''"
  "path_join CHR ''/'' ''/app'' RESOURCES_ZIP_NAME = ''/app/resources.zip''"
  by (simp_all add: path_join_def MODMANAGER_EXE_NAME_def resources_folder_name_def
      RESOURCES_ZIP_NAME_def)

lemma install_old_path:
  "py_replace ''.exe'' ''_old.exe'' ''/app/modmanager.exe'' = ''/app/modmanager_old.exe''"
  by code_simp

text \<open>
  The staged extraction of the earlier updater leaves the destination as it was
  when a member of the archive cannot be extracted.
\<close>

lemma unzip_to_failure_keeps_dest:
  "extractall members = Inl e \<Longrightarrow> unzip_to sep (Archive members) dest s = (Some e, s)"
  by (simp add: unzip_to_def)

lemma unzip_to_half_bad:
  "unzip_to CHR ''/'' half_bad_archive ''/app/resources'' installed_fs
   = (Some (Exc ''BadZipFile''), installed_fs)"
  by (simp add: unzip_to_def half_bad_archive_def endswith_def)

text \<open>
  Claim C2 says that a failure in the middle of the extraction leaves the
  destination as it was. \<open>unzip_and_merge\<close> of the current installer writes each
  member straight into the destination: with an archive whose second member is
  damaged, the call raises after it has replaced \<open>a.txt\<close> and cut \<open>b.txt\<close> down to the
  two bytes read before the damage.
\<close>

theorem unzip_and_merge_partial_overwrite:
  "fst (unzip_and_merge CHR ''/'' half_bad_archive ''/app/resources'' installed_fs)
     = Some (Exc ''BadZipFile'')
   \<and> files (snd (unzip_and_merge CHR ''/'' half_bad_archive ''/app/resources'' installed_fs))
       ''/app/resources/a.txt'' = Some ''NEW-A''
   \<and> files (snd (unzip_and_merge CHR ''/'' half_bad_archive ''/app/resources'' installed_fs))
       ''/app/resources/b.txt'' = Some ''NE''
   \<and> files installed_fs ''/app/resources/a.txt'' = Some ''OLD-A''
   \<and> files installed_fs ''/app/resources/b.txt'' = Some ''OLD-B''"
  by (simp add: unzip_and_merge_def half_bad_archive_def installed_fs_def member_target_def
      py_lower_def py_lower_char_def resources_folder_name_def path_join_list_def path_join_def
      endswith_def os_makedirs_def dirname_def write_file_def Let_def)

text \<open>
  Claim C6 says that no download is streamed onto the installed executable. \<open>run\<close>
  renames the installed \<open>modmanager.exe\<close> aside and downloads the new one to the
  installed path itself: when the connection drops after four bytes, the call
  raises, the installed path holds those four bytes, the previous executable is
  left under the name \<open>modmanager_old.exe\<close>, and nothing is launched.
\<close>

theorem run_streams_onto_live_target:
  "fst (run CHR ''/'' dropped_env ''/app'' False installed_state)
     = Some (Exc ''ChunkedEncodingError'')
   \<and> files (disk (snd (run CHR ''/'' dropped_env ''/app'' False installed_state)))
       ''/app/modmanager.exe'' = Some ''NEW-''
   \<and> files (disk (snd (run CHR ''/'' dropped_env ''/app'' False installed_state)))
       ''/app/modmanager_old.exe'' = Some ''OLD-BINARY''
   \<and> launched (snd (run CHR ''/'' dropped_env ''/app'' False installed_state)) = None"
  by (simp add: run_def run_files_def install_paths install_old_path Let_def io_then_def
      io_if_def os_makedirs_def close_modmanager_def installed_state_def installed_fs_def
      dropped_env_def dropped_net_def path_exists_def os_rename_def download_file_def
      int_parses_def py_strip_def py_isspace_def is_ascii_digit_def write_file_def)

section \<open>Properties of the replacement engine\<close>

lemma watcher_loop_ends:
  assumes "\<not> held k" and "i \<le> k" and "files s target \<noteq> None" and "target \<notin> dirs s"
  shows "\<exists>s'. watcher_loop held target i s = Some s'
              \<and> files s' = (files s)(target := None)
              \<and> dirs s' = dirs s
              \<and> locked s' = locked s - {target}"
  using assms
proof (induction "k - i" arbitrary: i s)
  case 0
  then have i: "i = k" by simp
  with 0 have "\<not> held i" by simp
  with 0 show ?case
    by (subst watcher_loop.simps)
      (auto simp: Let_def del_quiet_def poll_locks_def os_remove_def path_exists_def)
next
  case (Suc n)
  show ?case
  proof (cases "held i")
    case False
    with Suc.prems show ?thesis
      by (subst watcher_loop.simps)
        (auto simp: Let_def del_quiet_def poll_locks_def os_remove_def path_exists_def)
  next
    case True
    define s1 where "s1 = poll_locks held target i s"
    have d: "del_quiet target s1 = s1"
      using True Suc.prems by (auto simp: s1_def del_quiet_def poll_locks_def os_remove_def)
    have e: "path_exists s1 target"
      using Suc.prems by (auto simp: s1_def poll_locks_def path_exists_def)
    have step: "watcher_loop held target i s = watcher_loop held target (Suc i) s1"
      by (subst watcher_loop.simps) (simp add: Let_def d e s1_def [symmetric])
    have n: "n = k - Suc i" using Suc.hyps(2) by simp
    have le: "Suc i \<le> k" using Suc.hyps(2) by simp
    have f: "files s1 target \<noteq> None" "target \<notin> dirs s1"
      using Suc.prems by (auto simp: s1_def poll_locks_def)
    from Suc.hyps(1) [OF n Suc.prems(1) le f]
    obtain s' where "watcher_loop held target (Suc i) s1 = Some s'"
      and "files s' = (files s1)(target := None)" and "dirs s' = dirs s1"
      and "locked s' = locked s1 - {target}"
      by blast
    then show ?thesis
      unfolding step using True by (auto simp: s1_def poll_locks_def)
  qed
qed

lemma atomic_replace_unlocked:
  assumes "files s src = Some b" and "src \<noteq> dst" and "src \<notin> locked s" and "dst \<notin> locked s"
    and "dst \<notin> dirs s"
  shows "fst (atomic_replace src dst s) = True
         \<and> files (snd (atomic_replace src dst s)) dst = Some b
         \<and> files (snd (atomic_replace src dst s)) src = None"
  using assms
  by (auto simp: atomic_replace_def io_then_def io_if_def path_exists_def os_remove_def
      shutil_move_def os_rename_def)

lemma atomic_replace_locked:
  assumes "files s dst \<noteq> None" and "dst \<in> locked s"
  shows "atomic_replace src dst s = (False, s)"
  using assms
  by (auto simp: atomic_replace_def io_then_def io_if_def path_exists_def os_remove_def
      shutil_copy2_def split: option.splits)

lemma deferred_replacement:
  assumes ex: "files s installed \<noteq> None" and nd: "installed \<notin> dirs s"
    and src: "files s upd_tmp = Some b"
    and new: "upd_tmp \<noteq> installed @ ''.new''" "installed @ ''.new'' \<notin> locked s"
      "installed @ ''.new'' \<notin> dirs s"
    and bat: "bat \<noteq> installed" "bat \<noteq> installed @ ''.new''" "bat \<notin> locked s"
    and rel: "\<not> held k"
  shows "\<exists>job s1 s2.
           replace_installed_updater bat upd_tmp installed s = (Deferred job, s1)
           \<and> run_watcher held job s1 = Some s2
           \<and> files s2 installed = Some b
           \<and> files s2 (installed @ ''.new'') = None
           \<and> files s2 bat = None"
proof -
  let ?new = "installed @ ''.new''"
  define s1 where "s1 = write_file bat (bat_script ?new installed) (write_file ?new b s)"
  define job where "job = \<lparr>new_file_path = ?new, target_path = installed, script_path = bat\<rparr>"
  have r: "replace_installed_updater bat upd_tmp installed s = (Deferred job, s1)"
    using ex src new
    by (simp add: replace_installed_updater_def path_exists_def shutil_copy2_def
        schedule_replace_and_exit_def s1_def job_def)
  have f1: "files s1 installed \<noteq> None" "installed \<notin> dirs s1"
    using ex nd bat by (auto simp: s1_def write_file_def)
  have "0 \<le> k" by simp
  from watcher_loop_ends [where held = held and k = k and i = 0 and s = s1
      and target = installed] rel this f1
  obtain s' where w: "watcher_loop held installed 0 s1 = Some s'"
    and fs': "files s' = (files s1)(installed := None)" and ds': "dirs s' = dirs s1"
    and ls': "locked s' = locked s1 - {installed}"
    by blast
  define s2 where "s2 = del_quiet bat (move_quiet ?new installed s')"
  have rw: "run_watcher held job s1 = Some s2"
    by (simp add: run_watcher_def job_def w s2_def)
  have n1: "files s' ?new = Some b"
    using bat by (simp add: fs' s1_def write_file_def)
  have m: "move_quiet ?new installed s'
           = s'\<lparr>files := (files s')(installed := Some b, ?new := None)\<rparr>"
    using n1 new nd by (auto simp: move_quiet_def ls' ds' s1_def write_file_def)
  have "files s2 installed = Some b \<and> files s2 ?new = None \<and> files s2 bat = None"
    using bat by (auto simp: s2_def m del_quiet_def os_remove_def fs' ls' s1_def write_file_def)
  with r rw show ?thesis by blast
qed

text \<open>
  Claim C1, as stated, says that replacing a destination that another process
  holds open yields Deferred. \<open>atomic_replace\<close> has no such result: with the
  installed executable held open, deleting it fails, the copy in the handler fails
  too, and the call returns False; the destination keeps its old content and no
  \<open>.new\<close> file is written.
\<close>

theorem atomic_replace_locked_counterexample:
  "''/app/modmanager.exe'' \<in> locked locked_target_fs
   \<and> atomic_replace ''/tmp/dl/modmanager.exe'' ''/app/modmanager.exe'' locked_target_fs
     = (False, locked_target_fs)
   \<and> files locked_target_fs ''/app/modmanager.exe'' = Some ''OLD-BINARY''
   \<and> files locked_target_fs ''/app/modmanager.exe.new'' = None"
proof -
  have l: "''/app/modmanager.exe'' \<in> locked locked_target_fs"
    and f: "files locked_target_fs ''/app/modmanager.exe'' = Some ''OLD-BINARY''"
    and n: "files locked_target_fs ''/app/modmanager.exe.new'' = None"
    by (simp_all add: locked_target_fs_def)
  from f have "files locked_target_fs ''/app/modmanager.exe'' \<noteq> None" by simp
  from atomic_replace_locked [OF this l] l f n show ?thesis by simp
qed

text \<open>
  Claim C1, amended. \<open>atomic_replace(src, dst)\<close>, for an existing source that is
  not the destination and not held open, and a destination that is not held open
  and not a directory, returns True, and the destination then has the content the
  source had before the call; for an existing destination that another process
  holds open it returns False and changes nothing. The deferred replacement does
  not depend on a lock: for an installed updater it is always taken. The new
  content is staged at the destination path plus \<open>.new\<close>, the result is Deferred,
  and once the process that holds the destination has exited and the watcher has
  run to completion, the destination has the content of the source, and neither
  the \<open>.new\<close> file nor the script exists any more.
\<close>

theorem replacement_engine:
  "(files s src = Some b \<and> src \<noteq> dst \<and> src \<notin> locked s \<and> dst \<notin> locked s \<and> dst \<notin> dirs s
      \<longrightarrow> fst (atomic_replace src dst s) = True
          \<and> files (snd (atomic_replace src dst s)) dst = Some b
          \<and> files (snd (atomic_replace src dst s)) src = None)
   \<and> (files t dst' \<noteq> None \<and> dst' \<in> locked t
      \<longrightarrow> atomic_replace src' dst' t = (False, t))
   \<and> (files u installed \<noteq> None \<and> installed \<notin> dirs u \<and> files u upd_tmp = Some c
        \<and> upd_tmp \<noteq> installed @ ''.new'' \<and> installed @ ''.new'' \<notin> locked u
        \<and> installed @ ''.new'' \<notin> dirs u
        \<and> bat \<noteq> installed \<and> bat \<noteq> installed @ ''.new'' \<and> bat \<notin> locked u
        \<and> \<not> held k
      \<longrightarrow> (\<exists>job u1 u2.
             replace_installed_updater bat upd_tmp installed u = (Deferred job, u1)
             \<and> run_watcher held job u1 = Some u2
             \<and> files u2 installed = Some c
             \<and> files u2 (installed @ ''.new'') = None
             \<and> files u2 bat = None))"
proof (intro conjI impI)
  assume "files s src = Some b \<and> src \<noteq> dst \<and> src \<notin> locked s \<and> dst \<notin> locked s \<and> dst \<notin> dirs s"
  then have a: "fst (atomic_replace src dst s) = True
          \<and> files (snd (atomic_replace src dst s)) dst = Some b
          \<and> files (snd (atomic_replace src dst s)) src = None"
    by (intro atomic_replace_unlocked) simp_all
  from a show "fst (atomic_replace src dst s) = True" by simp
  from a show "files (snd (atomic_replace src dst s)) dst = Some b" by simp
  from a show "files (snd (atomic_replace src dst s)) src = None" by simp
next
  assume "files t dst' \<noteq> None \<and> dst' \<in> locked t"
  then show "atomic_replace src' dst' t = (False, t)"
    by (intro atomic_replace_locked) simp_all
next
  assume "files u installed \<noteq> None \<and> installed \<notin> dirs u \<and> files u upd_tmp = Some c
        \<and> upd_tmp \<noteq> installed @ ''.new'' \<and> installed @ ''.new'' \<notin> locked u
        \<and> installed @ ''.new'' \<notin> dirs u
        \<and> bat \<noteq> installed \<and> bat \<noteq> installed @ ''.new'' \<and> bat \<notin> locked u
        \<and> \<not> held k"
  then show "\<exists>job u1 u2.
             replace_installed_updater bat upd_tmp installed u = (Deferred job, u1)
             \<and> run_watcher held job u1 = Some u2
             \<and> files u2 installed = Some c
             \<and> files u2 (installed @ ''.new'') = None
             \<and> files u2 bat = None"
    by (intro deferred_replacement [where k = k]) simp_all
qed

theorem replacement_engine_witness:
  "fst (atomic_replace ''/tmp/dl/modmanager.exe'' ''/app/modmanager.exe'' unlocked_target_fs)
   \<and> files (snd (atomic_replace ''/tmp/dl/modmanager.exe'' ''/app/modmanager.exe''
                   unlocked_target_fs)) ''/app/modmanager.exe'' = Some ''NEW-BINARY''
   \<and> atomic_replace ''/tmp/dl/modmanager.exe'' ''/app/modmanager.exe'' locked_target_fs
     = (False, locked_target_fs)
   \<and> (\<exists>job u1 u2.
        replace_installed_updater ''/tmp/replace.bat'' ''/tmp/dl/update.exe'' ''/app/update.exe''
          updater_fs = (Deferred job, u1)
        \<and> run_watcher held_for_two_polls job u1 = Some u2
        \<and> files u2 ''/app/update.exe'' = Some ''NEW-UPDATER''
        \<and> files u2 ''/app/update.exe.new'' = None
        \<and> files u2 ''/tmp/replace.bat'' = None)"
proof -
  note r = replacement_engine [where s = unlocked_target_fs and src = "''/tmp/dl/modmanager.exe''"
      and dst = "''/app/modmanager.exe''" and b = "''NEW-BINARY''"
      and t = locked_target_fs and src' = "''/tmp/dl/modmanager.exe''"
      and dst' = "''/app/modmanager.exe''"
      and u = updater_fs and installed = "''/app/update.exe''"
      and upd_tmp = "''/tmp/dl/update.exe''" and c = "''NEW-UPDATER''"
      and bat = "''/tmp/replace.bat''" and held = held_for_two_polls and k = 2]
  have a: "files unlocked_target_fs ''/tmp/dl/modmanager.exe'' = Some ''NEW-BINARY''
      \<and> ''/tmp/dl/modmanager.exe'' \<noteq> ''/app/modmanager.exe''
      \<and> ''/tmp/dl/modmanager.exe'' \<notin> locked unlocked_target_fs
      \<and> ''/app/modmanager.exe'' \<notin> locked unlocked_target_fs
      \<and> ''/app/modmanager.exe'' \<notin> dirs unlocked_target_fs"
    by (simp add: unlocked_target_fs_def locked_target_fs_def)
  have b: "files locked_target_fs ''/app/modmanager.exe'' \<noteq> None
      \<and> ''/app/modmanager.exe'' \<in> locked locked_target_fs"
    by (simp add: locked_target_fs_def)
  have c: "files updater_fs ''/app/update.exe'' \<noteq> None
      \<and> ''/app/update.exe'' \<notin> dirs updater_fs
      \<and> files updater_fs ''/tmp/dl/update.exe'' = Some ''NEW-UPDATER''
      \<and> ''/tmp/dl/update.exe'' \<noteq> ''/app/update.exe'' @ ''.new''
      \<and> ''/app/update.exe'' @ ''.new'' \<notin> locked updater_fs
      \<and> ''/app/update.exe'' @ ''.new'' \<notin> dirs updater_fs
      \<and> ''/tmp/replace.bat'' \<noteq> ''/app/update.exe''
      \<and> ''/tmp/replace.bat'' \<noteq> ''/app/update.exe'' @ ''.new''
      \<and> ''/tmp/replace.bat'' \<notin> locked updater_fs
      \<and> \<not> held_for_two_polls 2"
    by (simp add: updater_fs_def held_for_two_polls_def)
  from r a b c show ?thesis by simp
qed

end
